theory Spec2Isabelle
  imports Complex_Main "HOL-Library.Word"
begin

unbundle bit_operations_syntax

section \<open>Machine types of the ATmega328P firmware\<close>

text \<open>
  The firmware (\<^verbatim>\<open>software/src/main.cpp\<close>) is compiled for an 8-bit AVR: \<^verbatim>\<open>int\<close> is a
  16-bit two's complement integer, \<^verbatim>\<open>uint16_t\<close> is \<^verbatim>\<open>unsigned int\<close>, \<^verbatim>\<open>long\<close> has 32 bits.
  All of them are words; a signed value is a word that is read with \<open>sint\<close> and compared
  with \<open><s\<close>.  A \<^verbatim>\<open>double\<close> is modelled by an exact real number: the rounding of the
  target's binary floating point is not part of the model, and the statements below about
  temperatures are statements of exact arithmetic.
\<close>

type_synonym u8 = "8 word"
type_synonym u16 = "16 word"
type_synonym i16 = "16 word"
type_synonym double = real

text \<open>Conversion of a \<^verbatim>\<open>double\<close> to an integer type truncates towards zero; the 16-bit
  result keeps the low 16 bits, which is what the target's conversion routine leaves for a
  value out of range.\<close>

definition d2i :: "double \<Rightarrow> int" where
  "d2i x = (if 0 \<le> x then \<lfloor>x\<rfloor> else \<lceil>x\<rceil>)"

definition d2u16 :: "double \<Rightarrow> u16" where
  "d2u16 x = word_of_int (d2i x)"

definition u2d :: "u16 \<Rightarrow> double" where
  "u2d w = of_nat (unat w)"

text \<open>The Arduino macro \<^verbatim>\<open>abs(x) ((x)>0?(x):-(x))\<close> on a \<^verbatim>\<open>double\<close>.\<close>

definition absd :: "double \<Rightarrow> double" where
  "absd x = (if x > 0 then x else - x)"

subsection \<open>Compile-time constants\<close>

definition ROTARY_TYPE :: nat where "ROTARY_TYPE = 1"
definition TEMP_MIN :: u16 where "TEMP_MIN = 150"
definition TEMP_MAX :: u16 where "TEMP_MAX = 400"
definition TEMP_DEFAULT :: u16 where "TEMP_DEFAULT = 320"
definition TEMP_SLEEP :: u16 where "TEMP_SLEEP = 150"
definition TEMP_BOOST :: u8 where "TEMP_BOOST = 50"
definition TEMP_STEP :: i16 where "TEMP_STEP = 10"
definition TEMP200 :: u16 where "TEMP200 = 216"
definition TEMP280 :: u16 where "TEMP280 = 308"
definition TEMP360 :: u16 where "TEMP360 = 390"
definition TEMPCHP :: u16 where "TEMPCHP = 30"
definition TIPMAX :: nat where "TIPMAX = 8"
definition TIPNAMELENGTH :: nat where "TIPNAMELENGTH = 6"
definition TIPNAME :: "u8 list" where "TIPNAME = [87, 77, 82, 84]"
definition TIME2SLEEP :: u8 where "TIME2SLEEP = 5"
definition TIME2OFF :: u8 where "TIME2OFF = 15"
definition TIMEOFBOOST :: u8 where "TIMEOFBOOST = 40"
definition MAINSCREEN :: u8 where "MAINSCREEN = 1"
definition EEPROM_IDENT :: u16 where "EEPROM_IDENT = 0xE76C"

text \<open>N-channel MOSFET build (\<^verbatim>\<open>#define N_MOSFET\<close>): the gate signal is inverted, the value
  255 on the control pin switches the heater off and \<^verbatim>\<open>HEATER_PWM\<close> is \<^verbatim>\<open>255 - Output\<close>.\<close>

definition HEATER_ON :: int where "HEATER_ON = 0"
definition HEATER_OFF :: int where "HEATER_OFF = 255"

definition HEATER_PWM :: "double \<Rightarrow> int" where
  "HEATER_PWM out = d2i (255 - out)"

section \<open>Analog acquisition\<close>

text \<open>
  The conversions of one acquisition are a function from the index of the conversion to
  the content of the 16-bit \<^verbatim>\<open>ADC\<close> register at that moment.  \<open>adcSum adc n\<close> is the
  16-bit accumulator \<^verbatim>\<open>result\<close> after \<open>n\<close> rounds of \<^verbatim>\<open>result += ADC\<close>.  The port argument
  of \<^verbatim>\<open>denoiseAnalog\<close> only selects the multiplexer channel, that is, which function of
  conversions is read.
\<close>

fun adcSum :: "(nat \<Rightarrow> u16) \<Rightarrow> nat \<Rightarrow> u16" where
  "adcSum adc 0 = 0"
| "adcSum adc (Suc i) = adcSum adc i + adc i"

definition denoiseAnalog :: "(nat \<Rightarrow> u16) \<Rightarrow> u16" where
  "denoiseAnalog adc = drop_bit 5 (adcSum adc 32)"

text \<open>\<^verbatim>\<open>getChipTemp\<close>: 32 conversions, \<^verbatim>\<open>result >>= 2\<close>, then
  \<^verbatim>\<open>(result - 2594) / 9.76\<close>, the subtraction in \<^verbatim>\<open>unsigned int\<close>.\<close>

definition chipTempRaw :: "(nat \<Rightarrow> u16) \<Rightarrow> u16" where
  "chipTempRaw adc = drop_bit 2 (adcSum adc 32)"

definition getChipTemp :: "(nat \<Rightarrow> u16) \<Rightarrow> double" where
  "getChipTemp adc = u2d (chipTempRaw adc - 2594) / 9.76"

text \<open>\<^verbatim>\<open>getVCC\<close>: 16 conversions, \<^verbatim>\<open>result >>= 4\<close>, then \<^verbatim>\<open>1125300L / result\<close> in
  \<^verbatim>\<open>long\<close>, returned as \<^verbatim>\<open>uint16_t\<close>.  A division by zero has no defined result.\<close>

definition vccRaw :: "(nat \<Rightarrow> u16) \<Rightarrow> u16" where
  "vccRaw adc = drop_bit 4 (adcSum adc 16)"

definition getVCC :: "(nat \<Rightarrow> u16) \<Rightarrow> u16 option" where
  "getVCC adc =
     (let result = vccRaw adc
      in if result = 0 then None
         else Some (word_of_int (1125300 div uint result)))"

text \<open>\<^verbatim>\<open>getVIN\<close> and \<^verbatim>\<open>getColdJ\<close> scale a denoised reading.  The quotient is taken
  in exact arithmetic; where it falls next to an integer the target's 32-bit floating point
  can give a result that differs by one.\<close>

definition getVIN :: "u16 \<Rightarrow> (nat \<Rightarrow> u16) \<Rightarrow> u16" where
  "getVIN vcc adc =
     (let result = (ucast (denoiseAnalog adc) :: 32 word)
      in d2u16 (of_int (sint (result * ucast vcc)) / 179.474))"

definition getColdJ :: "(nat \<Rightarrow> u16) \<Rightarrow> u16" where
  "getColdJ adc = (let result = denoiseAnalog adc in d2u16 (u2d result * 0.9 - 113.836))"

text \<open>A channel whose conversions all read the same value.\<close>

definition steady :: "u16 \<Rightarrow> nat \<Rightarrow> u16" where
  "steady v i = v"

section \<open>Rotary encoder\<close>

record encoder =
  a0 :: u8
  b0 :: u8
  ab0 :: bool
  count :: i16
  countMin :: i16
  countMax :: i16
  countStep :: i16

text \<open>The Arduino macro \<^verbatim>\<open>constrain(amt,low,high)\<close> on \<^verbatim>\<open>int\<close>.\<close>

definition constrain :: "i16 \<Rightarrow> i16 \<Rightarrow> i16 \<Rightarrow> i16" where
  "constrain amt low high = (if amt <s low then low else if high <s amt then high else amt)"

definition setRotary :: "bool \<Rightarrow> i16 \<Rightarrow> i16 \<Rightarrow> i16 \<Rightarrow> i16 \<Rightarrow> encoder \<Rightarrow> encoder" where
  "setRotary ECRev rmin rmax rstep rvalue e =
     e\<lparr>countMin := push_bit ROTARY_TYPE rmin,
       countMax := push_bit ROTARY_TYPE rmax,
       countStep := (if ECRev then - rstep else rstep),
       count := push_bit ROTARY_TYPE rvalue\<rparr>"

definition getRotary :: "encoder \<Rightarrow> i16" where
  "getRotary e = signed_drop_bit ROTARY_TYPE (count e)"

text \<open>One step of the handler: \<^verbatim>\<open>count = constrain(count + ((a == b) ? countStep : -countStep),
  countMin, countMax)\<close>.\<close>

definition stepCount :: "bool \<Rightarrow> encoder \<Rightarrow> encoder" where
  "stepCount ab e =
     e\<lparr>count := constrain (count e + (if ab then countStep e else - countStep e))
                  (countMin e) (countMax e)\<rparr>"

text \<open>The pin change interrupt routine, given the port registers \<^verbatim>\<open>PINB\<close> and \<^verbatim>\<open>PIND\<close>
  it reads.\<close>

definition PCINT0_vect :: "u8 \<Rightarrow> u8 \<Rightarrow> encoder \<Rightarrow> encoder" where
  "PCINT0_vect PINB PIND e =
     (let a = PINB AND 1;
          b = drop_bit 7 PIND AND 1
      in if a \<noteq> a0 e then
           (let e1 = e\<lparr>a0 := a\<rparr>
            in if b \<noteq> b0 e1 then
                 (let e2 = e1\<lparr>b0 := b\<rparr>;
                      e3 = stepCount (a = b) e2;
                      e4 = (if ROTARY_TYPE \<noteq> 0 \<and> ((a = b) \<noteq> ab0 e3)
                            then stepCount (a = b) e3 else e3)
                  in e4\<lparr>ab0 := (a = b)\<rparr>)
               else e1)
         else e)"

text \<open>A sequence of edges, each given by the two port registers the handler reads.\<close>

definition edges :: "(u8 \<times> u8) list \<Rightarrow> encoder \<Rightarrow> encoder" where
  "edges ps e = fold (\<lambda>(pb, pd). PCINT0_vect pb pd) ps e"

definition inBounds :: "encoder \<Rightarrow> bool" where
  "inBounds e = (countMin e \<le>s count e \<and> count e \<le>s countMax e)"

text \<open>The encoder variables at reset (zero-initialised globals).\<close>

definition encoder0 :: encoder where
  "encoder0 = \<lparr>a0 = 0, b0 = 0, ab0 = False, count = 0, countMin = 0, countMax = 0,
               countStep = 0\<rparr>"

section \<open>Settings, tip profiles and the EEPROM\<close>

record settings =
  DefaultTemp :: u16
  SleepTemp :: u16
  BoostTemp :: u8
  time2sleep :: u8
  time2off :: u8
  timeOfBoost :: u8
  MainScrType :: u8
  PIDenable :: bool
  beepEnable :: bool
  BodyFlip :: bool
  ECReverse :: bool

text \<open>
  The arrays \<^verbatim>\<open>CalTemp[TIPMAX][4]\<close> and \<^verbatim>\<open>TipName[TIPMAX][TIPNAMELENGTH]\<close> are functions from
  the two indices to the element.  Only rows below \<open>TIPMAX\<close> exist in the firmware; the
  statements below that read or write a row assume that the number of tips is at most
  \<open>TIPMAX\<close>.
\<close>

record tipstore =
  CalTemp :: "nat \<Rightarrow> nat \<Rightarrow> u16"
  TipName :: "nat \<Rightarrow> nat \<Rightarrow> u8"
  CurrentTip :: u8
  NumberOfTips :: u8

text \<open>The initialisers of the globals: what the variables hold when \<^verbatim>\<open>setup\<close> starts.\<close>

definition settings0 :: settings where
  "settings0 = \<lparr>DefaultTemp = TEMP_DEFAULT, SleepTemp = TEMP_SLEEP, BoostTemp = TEMP_BOOST,
     time2sleep = TIME2SLEEP, time2off = TIME2OFF, timeOfBoost = TIMEOFBOOST,
     MainScrType = MAINSCREEN, PIDenable = False, beepEnable = True, BodyFlip = False,
     ECReverse = False\<rparr>"

definition tipstore0 :: tipstore where
  "tipstore0 = \<lparr>
     CalTemp = (\<lambda>i j. if i = 0 then (if j < 4 then [TEMP200, TEMP280, TEMP360, TEMPCHP] ! j else 0)
                     else 0),
     TipName = (\<lambda>i j. if i = 0 \<and> j < length TIPNAME then TIPNAME ! j else 0),
     CurrentTip = 0, NumberOfTips = 1\<rparr>"

text \<open>The EEPROM is a function from the address to the byte stored there.
  \<^verbatim>\<open>EEPROM.update\<close> leaves the cell holding the value written.\<close>

type_synonym eeprom = "nat \<Rightarrow> u8"

definition b2u8 :: "bool \<Rightarrow> u8" where
  "b2u8 b = (if b then 1 else 0)"

definition hi8 :: "u16 \<Rightarrow> u8" where
  "hi8 w = ucast (drop_bit 8 w)"

definition lo8 :: "u16 \<Rightarrow> u8" where
  "lo8 w = ucast (w AND 0xFF)"

text \<open>\<^verbatim>\<open>(EEPROM.read(a) << 8) | EEPROM.read(b)\<close>, assigned to a \<^verbatim>\<open>uint16_t\<close>.\<close>

definition mk16 :: "u8 \<Rightarrow> u8 \<Rightarrow> u16" where
  "mk16 h l = push_bit 8 (ucast h) OR ucast l"

text \<open>The two inner loops of \<^verbatim>\<open>updateEEPROM\<close> for tip \<open>i\<close>, threading \<^verbatim>\<open>counter\<close>.\<close>

definition updateTip :: "tipstore \<Rightarrow> nat \<Rightarrow> nat \<times> eeprom \<Rightarrow> nat \<times> eeprom" where
  "updateTip ts i ce =
     (let ce1 = fold (\<lambda>j (c, e). (c + 1, e(c := TipName ts i j))) [0..<TIPNAMELENGTH] ce
      in fold (\<lambda>j (c, e). (c + 2, (e(c := hi8 (CalTemp ts i j)))(c + 1 := lo8 (CalTemp ts i j))))
           [0..<4] ce1)"

definition updateEEPROM :: "settings \<Rightarrow> tipstore \<Rightarrow> eeprom \<Rightarrow> eeprom" where
  "updateEEPROM s ts e =
     (let e1 = e(2 := hi8 (DefaultTemp s), 3 := lo8 (DefaultTemp s),
                 4 := hi8 (SleepTemp s), 5 := lo8 (SleepTemp s),
                 6 := BoostTemp s, 7 := time2sleep s, 8 := time2off s, 9 := timeOfBoost s,
                 10 := MainScrType s, 11 := b2u8 (PIDenable s), 12 := b2u8 (beepEnable s),
                 13 := b2u8 (BodyFlip s), 14 := b2u8 (ECReverse s),
                 15 := CurrentTip ts, 16 := NumberOfTips ts)
      in snd (fold (updateTip ts) [0..<unat (NumberOfTips ts)] (17, e1)))"

text \<open>The two inner loops of \<^verbatim>\<open>getEEPROM\<close> for tip \<open>i\<close>.\<close>

definition getTip :: "eeprom \<Rightarrow> nat \<Rightarrow> nat \<times> tipstore \<Rightarrow> nat \<times> tipstore" where
  "getTip e i cts =
     (let cts1 = fold (\<lambda>j (c, ts).
                    (c + 1, ts\<lparr>TipName := (TipName ts)(i := (TipName ts i)(j := e c))\<rparr>))
                  [0..<TIPNAMELENGTH] cts
      in fold (\<lambda>j (c, ts).
                (c + 2, ts\<lparr>CalTemp := (CalTemp ts)(i := (CalTemp ts i)(j := mk16 (e c) (e (c + 1))))\<rparr>))
           [0..<4] cts1)"

definition getEEPROM :: "settings \<Rightarrow> tipstore \<Rightarrow> eeprom \<Rightarrow> settings \<times> tipstore \<times> eeprom" where
  "getEEPROM s ts e =
     (let identifier = mk16 (e 0) (e 1)
      in if identifier = EEPROM_IDENT then
           (let s1 = \<lparr>DefaultTemp = mk16 (e 2) (e 3), SleepTemp = mk16 (e 4) (e 5),
                      BoostTemp = e 6, time2sleep = e 7, time2off = e 8, timeOfBoost = e 9,
                      MainScrType = e 10, PIDenable = (e 11 \<noteq> 0), beepEnable = (e 12 \<noteq> 0),
                      BodyFlip = (e 13 \<noteq> 0), ECReverse = (e 14 \<noteq> 0)\<rparr>;
                ts1 = ts\<lparr>CurrentTip := e 15, NumberOfTips := e 16\<rparr>
            in (s1, snd (fold (getTip e) [0..<unat (NumberOfTips ts1)] (17, ts1)), e))
         else
           (let e1 = e(0 := hi8 EEPROM_IDENT, 1 := lo8 EEPROM_IDENT)
            in (s, ts, updateEEPROM s ts e1)))"

text \<open>A factory-fresh EEPROM: every cell reads \<open>0xFF\<close>.\<close>

definition blankEEPROM :: eeprom where
  "blankEEPROM a = 0xFF"

text \<open>The persisted layout of one tip, byte \<open>k\<close> of the 14 bytes of tip \<open>i\<close>: the
  name bytes, then the four calibration values, high byte first.\<close>

definition tipByte :: "tipstore \<Rightarrow> nat \<Rightarrow> nat \<Rightarrow> u8" where
  "tipByte ts i k =
     (if k < TIPNAMELENGTH then TipName ts i k
      else if even (k - TIPNAMELENGTH) then hi8 (CalTemp ts i ((k - TIPNAMELENGTH) div 2))
      else lo8 (CalTemp ts i ((k - TIPNAMELENGTH) div 2)))"

section \<open>Tip profile operations\<close>

text \<open>
  The screens below poll the button and the encoder and draw on the display.  What they
  do to the tip profiles depends on the user only through the value \<^verbatim>\<open>getRotary()\<close> returned
  when the button was released; that value is an argument.  \<^verbatim>\<open>MessageScreen\<close> changes no
  variable.
\<close>

text \<open>\<^verbatim>\<open>InputNameScreen\<close>: \<open>rot d\<close> is the encoder reading taken for character \<open>d\<close>; the
  readings 31 and 96 wrap around to 95 and 32.\<close>

definition nameChar :: "i16 \<Rightarrow> u8" where
  "nameChar r =
     (let v = (ucast r :: u8);
          v1 = (if v = 31 then 95 else v)
      in if v1 = 96 then 32 else v1)"

definition setName :: "nat \<Rightarrow> u8 \<Rightarrow> tipstore \<Rightarrow> tipstore" where
  "setName d v ts =
     ts\<lparr>TipName := (TipName ts)(unat (CurrentTip ts) := (TipName ts (unat (CurrentTip ts)))(d := v))\<rparr>"

definition InputNameScreen :: "(nat \<Rightarrow> i16) \<Rightarrow> tipstore \<Rightarrow> tipstore" where
  "InputNameScreen rot ts =
     setName (TIPNAMELENGTH - 1) 0
       (fold (\<lambda>digit. setName digit (nameChar (rot digit))) [0..<TIPNAMELENGTH - 1] ts)"

definition setCal :: "nat \<Rightarrow> u16 \<Rightarrow> tipstore \<Rightarrow> tipstore" where
  "setCal j v ts =
     ts\<lparr>CalTemp := (CalTemp ts)(unat (CurrentTip ts) := (CalTemp ts (unat (CurrentTip ts)))(j := v))\<rparr>"

definition AddTipScreen :: "(nat \<Rightarrow> i16) \<Rightarrow> tipstore \<Rightarrow> tipstore" where
  "AddTipScreen rot ts =
     (if unat (NumberOfTips ts) < TIPMAX then
        (let ts1 = ts\<lparr>CurrentTip := NumberOfTips ts, NumberOfTips := NumberOfTips ts + 1\<rparr>;
             ts2 = InputNameScreen rot ts1
         in setCal 3 TEMPCHP (setCal 2 TEMP360 (setCal 1 TEMP280 (setCal 0 TEMP200 ts2))))
      else ts)"

text \<open>The body of the compaction loop of \<^verbatim>\<open>DeleteTipScreen\<close>: row \<open>i + 1\<close> is copied to
  row \<open>i\<close>.\<close>

definition copyTip :: "nat \<Rightarrow> tipstore \<Rightarrow> tipstore" where
  "copyTip i ts =
     (let ts1 = fold (\<lambda>j t. t\<lparr>TipName := (TipName t)(i := (TipName t i)(j := TipName t (i + 1) j))\<rparr>)
                  [0..<TIPNAMELENGTH] ts
      in fold (\<lambda>j t. t\<lparr>CalTemp := (CalTemp t)(i := (CalTemp t i)(j := CalTemp t (i + 1) j))\<rparr>)
           [0..<4] ts1)"

text \<open>\<open>sure\<close> is the answer given in the menu ``Are you sure ?'' (0 is No).  The
  comparisons with \<^verbatim>\<open>NumberOfTips - 1\<close> are in \<^verbatim>\<open>int\<close>.\<close>

definition DeleteTipScreen :: "u8 \<Rightarrow> tipstore \<Rightarrow> tipstore" where
  "DeleteTipScreen sure ts =
     (if NumberOfTips ts = 1 then ts
      else if sure \<noteq> 0 then
        (let ts1 = (if uint (CurrentTip ts) = uint (NumberOfTips ts) - 1
                    then ts\<lparr>CurrentTip := CurrentTip ts - 1\<rparr>
                    else fold copyTip [unat (CurrentTip ts)..<nat (uint (NumberOfTips ts) - 1)] ts)
         in ts1\<lparr>NumberOfTips := NumberOfTips ts1 - 1\<rparr>)
      else ts)"

text \<open>
  The end of \<^verbatim>\<open>CalibrationScreen\<close>: \<open>rot k\<close> is the encoder reading the user confirmed in
  calibration step \<open>k\<close>, \<open>chipAdc\<close> the conversions of the chip temperature channel and
  \<open>store\<close> the answer given in the menu ``Store Settings ?'' (0 is No).
\<close>

definition CalibrationScreen :: "(nat \<Rightarrow> i16) \<Rightarrow> (nat \<Rightarrow> u16) \<Rightarrow> u8 \<Rightarrow> tipstore \<Rightarrow> tipstore" where
  "CalibrationScreen rot chipAdc store ts =
     (let CalTempNew = (\<lambda>k. if k < 3 then rot k else d2u16 (getChipTemp chipAdc))
      in if CalTempNew 0 + 10 < CalTempNew 1 \<and> CalTempNew 1 + 10 < CalTempNew 2 then
           (if store \<noteq> 0 then fold (\<lambda>i. setCal i (CalTempNew i)) [0..<4] ts else ts)
         else ts)"

text \<open>Three calibration readings as a function of the calibration step.\<close>

definition triple :: "u16 \<Rightarrow> u16 \<Rightarrow> u16 \<Rightarrow> nat \<Rightarrow> i16" where
  "triple p0 p1 p2 k = (if k = 0 then p0 else if k = 1 then p1 else p2)"

section \<open>Sensor check and thermostat\<close>

record control =
  SetTemp :: u16
  ShowTemp :: u16
  Input :: double
  Output :: double
  Setpoint :: double
  RawTemp :: double
  CurrentTemp :: double
  CJTemp :: double
  Vcc :: u16
  Vin :: u16
  inSleepMode :: bool
  inOffMode :: bool
  inBoostMode :: bool
  isWorky :: bool
  beepIfWorky :: bool
  TipIsPresent :: bool
  SensorCounter :: u8
  controlPin :: int

text \<open>\<open>controlPin\<close> is the value last given to \<^verbatim>\<open>analogWrite(CONTROL_PIN, \<dots>)\<close>.  \<^verbatim>\<open>beep\<close>
  drives the buzzer pin only and leaves every variable as it is, so it does not appear.\<close>

definition control0 :: control where
  "control0 = \<lparr>SetTemp = 0, ShowTemp = 0, Input = 0, Output = 0, Setpoint = 0, RawTemp = 0,
     CurrentTemp = 0, CJTemp = 0, Vcc = 0, Vin = 0, inSleepMode = False, inOffMode = False,
     inBoostMode = False, isWorky = True, beepIfWorky = True, TipIsPresent = True,
     SensorCounter = 255, controlPin = HEATER_OFF\<rparr>"

text \<open>The conversions read during one call of \<^verbatim>\<open>SENSORCheck\<close>, per channel.\<close>

record sensors =
  reedAdc :: "nat \<Rightarrow> u16"
  tempAdc :: "nat \<Rightarrow> u16"
  coldjAdc :: "nat \<Rightarrow> u16"
  vinAdc :: "nat \<Rightarrow> u16"

definition SLEEPCheck :: "(nat \<Rightarrow> u16) \<Rightarrow> control \<Rightarrow> control" where
  "SLEEPCheck reed c =
     (let reedValue = denoiseAnalog reed
      in if reedValue < 32 then c\<lparr>TipIsPresent := True, inSleepMode := True, inOffMode := False\<rparr>
         else if reedValue < 192 then
           c\<lparr>TipIsPresent := True, inSleepMode := False, inOffMode := False\<rparr>
         else c\<lparr>TipIsPresent := False, inSleepMode := True, inOffMode := True\<rparr>)"

text \<open>\<^verbatim>\<open>calculateTemp\<close> returns after its first statement; the interpolation below the
  \<^verbatim>\<open>return\<close> is never executed.\<close>

definition calculateTemp :: "control \<Rightarrow> control" where
  "calculateTemp c = c\<lparr>CurrentTemp := RawTemp c * 0.836 + 8.91 + (CJTemp c - 25)\<rparr>"

text \<open>The parts of \<^verbatim>\<open>SENSORCheck\<close>, in the order of the source.  Every 256th call
  (\<^verbatim>\<open>if (!SensorCounter--)\<close>) refreshes the cold junction temperature and the input
  voltage.\<close>

definition refreshSlow :: "sensors \<Rightarrow> control \<Rightarrow> control" where
  "refreshSlow sn c =
     (if SensorCounter c = 0
      then c\<lparr>SensorCounter := SensorCounter c - 1,
             CJTemp := u2d (getColdJ (coldjAdc sn)),
             Vin := getVIN (Vcc c) (vinAdc sn)\<rparr>
      else c\<lparr>SensorCounter := SensorCounter c - 1\<rparr>)"

text \<open>\<^verbatim>\<open>if (Vin > 11000) analogWrite(CONTROL_PIN, HEATER_PWM);\<close>, which also ends
  \<^verbatim>\<open>Thermostat\<close>.\<close>

definition heaterPWM :: "control \<Rightarrow> control" where
  "heaterPWM c = (if 11000 < Vin c then c\<lparr>controlPin := HEATER_PWM (Output c)\<rparr> else c)"

text \<open>\<^verbatim>\<open>RawTemp += (temp - RawTemp);\<close>\<close>

definition smoothRaw :: "u16 \<Rightarrow> control \<Rightarrow> control" where
  "smoothRaw temp c = c\<lparr>RawTemp := RawTemp c + (u2d temp - RawTemp c)\<rparr>"

text \<open>The displayed temperature is stabilised around the setpoint.\<close>

definition stabilizeShow :: "control \<Rightarrow> control" where
  "stabilizeShow c =
     (let c1 = (if u2d (ShowTemp c) \<noteq> Setpoint c \<or> 5 < absd (u2d (ShowTemp c) - CurrentTemp c)
                then c\<lparr>ShowTemp := d2u16 (CurrentTemp c)\<rparr> else c)
      in if absd (u2d (ShowTemp c1) - Setpoint c1) \<le> 1
         then c1\<lparr>ShowTemp := d2u16 (Setpoint c1)\<rparr> else c1)"

text \<open>The working range flag.\<close>

definition workyCheck :: "control \<Rightarrow> control" where
  "workyCheck c =
     (let gap = d2u16 (absd (u2d (SetTemp c) - CurrentTemp c))
      in if gap < 5 then c\<lparr>isWorky := True, beepIfWorky := False\<rparr>
         else c\<lparr>isWorky := False\<rparr>)"

text \<open>\<^verbatim>\<open>SENSORCheck\<close> up to its last loop.\<close>

definition SENSORRead :: "sensors \<Rightarrow> control \<Rightarrow> control" where
  "SENSORRead sn c =
     (let c1 = c\<lparr>controlPin := HEATER_OFF\<rparr>;
          c2 = SLEEPCheck (reedAdc sn) c1;
          temp = denoiseAnalog (tempAdc sn);
          c3 = refreshSlow sn c2;
          c4 = heaterPWM c3;
          c5 = smoothRaw temp c4;
          c6 = calculateTemp c5;
          c7 = stabilizeShow c6
      in workyCheck c7)"

text \<open>The last loop of \<^verbatim>\<open>SENSORCheck\<close>:
  \<^verbatim>\<open>while (ShowTemp > 500) { analogWrite(CONTROL_PIN, HEATER_OFF); beep(); }\<close>.
  The value \<open>None\<close> says that the loop does not end.\<close>

definition tipFaultBody :: "control \<Rightarrow> control" where
  "tipFaultBody c = c\<lparr>controlPin := HEATER_OFF\<rparr>"

partial_function (option) tipFaultLoop :: "control \<Rightarrow> control option" where
  "tipFaultLoop c = (if 500 < ShowTemp c then tipFaultLoop (tipFaultBody c) else Some c)"

definition SENSORCheck :: "sensors \<Rightarrow> control \<Rightarrow> control option" where
  "SENSORCheck sn c = tipFaultLoop (SENSORRead sn c)"

text \<open>
  \<^verbatim>\<open>Thermostat\<close>.  The PID controller is a library outside this repository: \<open>pid cons inp
  sp out\<close> is the value its \<^verbatim>\<open>Compute\<close> leaves in \<^verbatim>\<open>Output\<close>, given whether the conservative
  tunings were chosen, the input, the setpoint and the previous output.
\<close>

definition modeSetpoint :: "settings \<Rightarrow> control \<Rightarrow> double" where
  "modeSetpoint s c =
     (if inOffMode c then 0
      else if inSleepMode c then u2d (SleepTemp s)
      else if inBoostMode c then u2d (SetTemp c + ucast (BoostTemp s))
      else u2d (SetTemp c))"

definition pidControl ::
  "(bool \<Rightarrow> double \<Rightarrow> double \<Rightarrow> double \<Rightarrow> double) \<Rightarrow> control \<Rightarrow> control" where
  "pidControl pid c =
     (let c1 = c\<lparr>Input := CurrentTemp c\<rparr>;
          gap = d2u16 (absd (Setpoint c1 - CurrentTemp c1))
      in c1\<lparr>Output := pid (gap < 30) (Input c1) (Setpoint c1) (Output c1)\<rparr>)"

definition directControl :: "control \<Rightarrow> control" where
  "directControl c =
     (if CurrentTemp c + 50 < Setpoint c then c\<lparr>Output := 255\<rparr>
      else if CurrentTemp c + 25 < Setpoint c then c\<lparr>Output := 128\<rparr>
      else if CurrentTemp c + 5 < Setpoint c then c\<lparr>Output := 32\<rparr>
      else if CurrentTemp c + 0.5 < Setpoint c then c\<lparr>Output := 8\<rparr>
      else c\<lparr>Output := 0\<rparr>)"

definition Thermostat ::
  "settings \<Rightarrow> (bool \<Rightarrow> double \<Rightarrow> double \<Rightarrow> double \<Rightarrow> double) \<Rightarrow> control \<Rightarrow> control" where
  "Thermostat s pid c =
     (let c1 = c\<lparr>Setpoint := modeSetpoint s c\<rparr>;
          c2 = (if PIDenable s then pidControl pid c1 else directControl c1)
      in heaterPWM c2)"

text \<open>The heater part of one pass of \<^verbatim>\<open>loop\<close>: \<^verbatim>\<open>SENSORCheck\<close>, then \<^verbatim>\<open>Thermostat\<close>.\<close>

definition controlTick ::
  "settings \<Rightarrow> (bool \<Rightarrow> double \<Rightarrow> double \<Rightarrow> double \<Rightarrow> double) \<Rightarrow> sensors \<Rightarrow> control
     \<Rightarrow> control option" where
  "controlTick s pid sn c = map_option (Thermostat s pid) (SENSORCheck sn c)"

text \<open>A \<^verbatim>\<open>Compute\<close> that leaves \<^verbatim>\<open>Output\<close> as it was.\<close>

definition pidHold :: "bool \<Rightarrow> double \<Rightarrow> double \<Rightarrow> double \<Rightarrow> double" where
  "pidHold cons inp sp out = out"

text \<open>The duty ladder as the specification words it, by a gap:
  above 50 the duty is 255, above 25 it is 128, above 5 it is 32, above 0.5 it is 8,
  otherwise 0.\<close>

definition specLadder :: "double \<Rightarrow> double" where
  "specLadder gap =
     (if 50 < gap then 255 else if 25 < gap then 128 else if 5 < gap then 32
      else if 0.5 < gap then 8 else 0)"

text \<open>A bench setting for concrete runs: the handle is held (reed reading 100), the cold
  junction and input voltage channels read 160 and 500, and every conversion of the tip
  sensor reads \<open>temp\<close>; the station runs with a setpoint of 320 and the input voltage
  \<open>vin\<close> measured last.\<close>

definition bench :: "u16 \<Rightarrow> sensors" where
  "bench temp = \<lparr>reedAdc = steady 100, tempAdc = steady temp, coldjAdc = steady 160,
     vinAdc = steady 500\<rparr>"

definition running :: "u16 \<Rightarrow> control" where
  "running vin = control0\<lparr>SetTemp := 320, RawTemp := 300, CJTemp := 30, Vcc := 5000, Vin := vin\<rparr>"

section \<open>Properties of the analog acquisition\<close>

lemma steady_const: "steady v = (\<lambda>i. v)"
  by (rule ext) (simp add: steady_def)

text \<open>With 10-bit conversions the 16-bit accumulator holds the true sum.\<close>

lemma adcSum_exact:
  assumes "\<forall>i<n. unat (adc i) \<le> 1023" and "n \<le> 64"
  shows "unat (adcSum adc n) = (\<Sum>i<n. unat (adc i)) \<and> (\<Sum>i<n. unat (adc i)) \<le> 1023 * n"
  using assms
proof (induction n)
  case 0
  then show ?case by simp
next
  case (Suc n)
  then have ih: "unat (adcSum adc n) = (\<Sum>i<n. unat (adc i))" "(\<Sum>i<n. unat (adc i)) \<le> 1023 * n"
    by simp_all
  have a: "unat (adc n) \<le> 1023" using Suc.prems by simp
  have "unat (adcSum adc n) + unat (adc n) < 65536"
    using ih a Suc.prems(2) by simp
  then have "unat (adcSum adc n + adc n) = unat (adcSum adc n) + unat (adc n)"
    by (simp add: unat_word_ariths)
  then show ?case using ih a by simp
qed

lemma adcSum_prefix:
  assumes "\<forall>i<32. unat (adc i) \<le> 1023" and "n \<le> 32"
  shows "unat (adcSum adc n) = (\<Sum>i<n. unat (adc i))"
  using adcSum_exact [of n adc] assms by simp

text \<open>
  Claim C10.  For 32 conversions of at most 1023 each, the 16-bit accumulator of
  \<^verbatim>\<open>denoiseAnalog\<close> equals the true sum after every round (it never wraps around), the sum
  is at most 32736, and the value returned is the floor of the arithmetic mean of the 32
  conversions.
\<close>

theorem denoiseAnalog_mean:
  assumes "\<forall>i<32. unat (adc i) \<le> 1023"
  shows "(\<forall>n\<le>32. unat (adcSum adc n) = (\<Sum>i<n. unat (adc i)))
       \<and> (\<Sum>i<32. unat (adc i)) \<le> 32736
       \<and> unat (denoiseAnalog adc) = (\<Sum>i<32. unat (adc i)) div 32"
proof -
  have s: "unat (adcSum adc 32) = (\<Sum>i<32. unat (adc i))" "(\<Sum>i<32. unat (adc i)) \<le> 1023 * 32"
    using adcSum_exact [of 32 adc] assms by simp_all
  have "unat (denoiseAnalog adc) = unat (adcSum adc 32) div 32"
    by (simp add: denoiseAnalog_def drop_bit_eq_div unat_div)
  then have m: "unat (denoiseAnalog adc) = (\<Sum>i<32. unat (adc i)) div 32"
    using s by simp
  have p: "\<forall>n\<le>32. unat (adcSum adc n) = (\<Sum>i<n. unat (adc i))"
    using adcSum_prefix [OF assms] by blast
  from p s(2) m show ?thesis by simp
qed

theorem denoiseAnalog_mean_witness:
  "unat (adcSum (steady 1023) 32) = 32736 \<and> unat (denoiseAnalog (steady 1023)) = 1023"
proof -
  have h: "\<forall>i<32. unat (steady 1023 i) \<le> 1023" by (simp add: steady_def)
  show ?thesis using denoiseAnalog_mean [OF h] by (simp add: steady_const)
qed

text \<open>
  Claim C9, as stated, fails: the chip temperature path shifts the sum of its 32 conversions
  by 2, not by 5, and neither it nor the supply voltage path returns the mean.  With all
  conversions reading 350 the mean is 350, but \<^verbatim>\<open>getChipTemp\<close> works on 2800 and returns
  a value other than 350, and \<^verbatim>\<open>getVCC\<close> returns 3215.
\<close>

theorem acquisition_shift_counterexample:
  "drop_bit 5 (adcSum (steady 350) 32) = 350
   \<and> chipTempRaw (steady 350) = 2800
   \<and> getChipTemp (steady 350) \<noteq> 350
   \<and> getVCC (steady 350) = Some 3215"
  by code_simp

text \<open>
  Claim C9, amended.  For 10-bit conversions: \<^verbatim>\<open>denoiseAnalog\<close> (tip sensor, reed switch,
  cold junction and input voltage channels) takes 32 conversions and returns their sum
  shifted right by 5, the floor of the mean; \<^verbatim>\<open>getVCC\<close> takes 16 conversions, shifts the sum
  right by 4 and returns 1125300 divided by that mean (as a 16-bit value; nothing is
  defined when the mean is 0); \<^verbatim>\<open>getChipTemp\<close> takes 32 conversions, shifts the sum right by
  2 (a quarter of the sum, eight times the mean), subtracts 2594 in 16-bit unsigned
  arithmetic and divides by 9.76.
\<close>

theorem acquisition_paths:
  assumes "\<forall>i<32. unat (adc i) \<le> 1023"
  shows "unat (denoiseAnalog adc) = (\<Sum>i<32. unat (adc i)) div 32
       \<and> unat (vccRaw adc) = (\<Sum>i<16. unat (adc i)) div 16
       \<and> getVCC adc = (if (\<Sum>i<16. unat (adc i)) div 16 = 0 then None
                        else Some (word_of_nat (1125300 div ((\<Sum>i<16. unat (adc i)) div 16))))
       \<and> unat (chipTempRaw adc) = (\<Sum>i<32. unat (adc i)) div 4
       \<and> getChipTemp adc = u2d (word_of_nat ((\<Sum>i<32. unat (adc i)) div 4) - 2594) / 9.76"
proof -
  have s32: "unat (adcSum adc 32) = (\<Sum>i<32. unat (adc i))"
    using adcSum_prefix [OF assms, of 32] by simp
  have s16: "unat (adcSum adc 16) = (\<Sum>i<16. unat (adc i))"
    using adcSum_prefix [OF assms, of 16] by simp
  have d: "unat (denoiseAnalog adc) = (\<Sum>i<32. unat (adc i)) div 32"
    using s32 by (simp add: denoiseAnalog_def drop_bit_eq_div unat_div)
  have v: "unat (vccRaw adc) = (\<Sum>i<16. unat (adc i)) div 16"
    using s16 by (simp add: vccRaw_def drop_bit_eq_div unat_div)
  have c: "unat (chipTempRaw adc) = (\<Sum>i<32. unat (adc i)) div 4"
    using s32 by (simp add: chipTempRaw_def drop_bit_eq_div unat_div)
  have c': "chipTempRaw adc = word_of_nat ((\<Sum>i<32. unat (adc i)) div 4)"
  proof -
    have "word_of_nat (unat (chipTempRaw adc)) = chipTempRaw adc" by simp
    then show ?thesis unfolding c by (rule sym)
  qed
  have v0: "(vccRaw adc = 0) = ((\<Sum>i<16. unat (adc i)) div 16 = 0)"
    unfolding v [symmetric] by (simp add: unat_0_iff)
  have vv: "(word_of_int (1125300 div uint (vccRaw adc)) :: u16)
           = word_of_nat (1125300 div ((\<Sum>i<16. unat (adc i)) div 16))"
  proof -
    have "1125300 div uint (vccRaw adc) = int (1125300 div unat (vccRaw adc))"
      by (simp add: zdiv_int)
    then show ?thesis unfolding v by simp
  qed
  have g: "getVCC adc = (if (\<Sum>i<16. unat (adc i)) div 16 = 0 then None
                        else Some (word_of_nat (1125300 div ((\<Sum>i<16. unat (adc i)) div 16))))"
    unfolding getVCC_def Let_def vv v0 by (rule refl)
  have t: "getChipTemp adc = u2d (word_of_nat ((\<Sum>i<32. unat (adc i)) div 4) - 2594) / 9.76"
    unfolding getChipTemp_def c' by (rule refl)
  from d v g c t show ?thesis by blast
qed

theorem acquisition_paths_witness:
  "unat (denoiseAnalog (steady 350)) = 350
   \<and> getVCC (steady 350) = Some 3215
   \<and> unat (chipTempRaw (steady 350)) = 2800
   \<and> getChipTemp (steady 350) = 206 / 9.76"
proof -
  have h: "\<forall>i<32. unat (steady 350 i) \<le> 1023" by (simp add: steady_def)
  show ?thesis using acquisition_paths [OF h] by (simp add: steady_const u2d_def)
qed

section \<open>Properties of the rotary encoder\<close>

lemma constrain_bounds:
  assumes "low \<le>s high"
  shows "low \<le>s constrain amt low high \<and> constrain amt low high \<le>s high"
  using assms by (auto simp: constrain_def word_sle_eq word_sless_alt)

lemma stepCount_inBounds:
  assumes "countMin e \<le>s countMax e"
  shows "inBounds (stepCount ab e)"
  using constrain_bounds [OF assms] by (simp add: inBounds_def stepCount_def)

lemma stepCount_frame:
  "countMin (stepCount ab e) = countMin e" "countMax (stepCount ab e) = countMax e"
  by (simp_all add: stepCount_def)

lemma PCINT0_vect_frame:
  "countMin (PCINT0_vect pb pd e) = countMin e \<and> countMax (PCINT0_vect pb pd e) = countMax e"
  by (simp add: PCINT0_vect_def Let_def stepCount_frame)

text \<open>An edge either leaves the counter as it was or leaves it within the bounds.\<close>

lemma inBounds_ab0: "inBounds (x\<lparr>ab0 := v\<rparr>) = inBounds x"
  by (simp add: inBounds_def)

lemma PCINT0_vect_clamps:
  assumes "countMin e \<le>s countMax e"
  shows "inBounds (PCINT0_vect pb pd e) \<or> count (PCINT0_vect pb pd e) = count e"
proof -
  have s1: "inBounds (stepCount ab (e\<lparr>a0 := A, b0 := B\<rparr>))" for ab A B
    using assms by (intro stepCount_inBounds) simp
  have s2: "inBounds (stepCount ab' (stepCount ab (e\<lparr>a0 := A, b0 := B\<rparr>)))" for ab ab' A B
    using assms by (intro stepCount_inBounds) (simp add: stepCount_frame)
  show ?thesis
    by (simp add: PCINT0_vect_def Let_def inBounds_ab0 s1 s2)
qed

lemma PCINT0_vect_inBounds:
  assumes "countMin e \<le>s countMax e" and "inBounds e"
  shows "inBounds (PCINT0_vect pb pd e)"
  using PCINT0_vect_clamps [OF assms(1), of pb pd] assms(2) PCINT0_vect_frame [of pb pd e]
  by (auto simp: inBounds_def)

lemma edges_frame:
  "countMin (edges ps e) = countMin e \<and> countMax (edges ps e) = countMax e"
  by (induction ps arbitrary: e) (auto simp: edges_def PCINT0_vect_frame)

lemma edges_inBounds:
  assumes "countMin e \<le>s countMax e" and "inBounds e"
  shows "inBounds (edges ps e)"
  using assms
proof (induction ps arbitrary: e)
  case Nil
  then show ?case by (simp add: edges_def)
next
  case (Cons p ps)
  obtain pb pd where p: "p = (pb, pd)" by (cases p)
  have "edges (p # ps) e = edges ps (PCINT0_vect pb pd e)"
    by (simp add: edges_def p)
  moreover have "inBounds (PCINT0_vect pb pd e)"
    using Cons.prems by (rule PCINT0_vect_inBounds)
  moreover have "countMin (PCINT0_vect pb pd e) \<le>s countMax (PCINT0_vect pb pd e)"
    using Cons.prems(1) PCINT0_vect_frame [of pb pd e] by simp
  ultimately show ?case using Cons.IH by simp
qed

lemma sint_double:
  fixes v :: i16
  assumes "- 16384 \<le> sint v" "sint v < 16384"
  shows "sint (push_bit 1 v) = 2 * sint v"
proof -
  have "sint (push_bit 1 v) = signed_take_bit 15 (2 * sint v)"
    by (simp add: push_bit_eq_mult sint_word_ariths mult.commute)
  also have "\<dots> = 2 * sint v"
    using assms by (simp add: signed_take_bit_int_eq_self)
  finally show ?thesis .
qed

lemma sint_halve:
  fixes c :: i16
  shows "sint (signed_drop_bit 1 c) = sint c div 2"
  by (simp add: sint_signed_drop_bit_eq drop_bit_eq_div)

lemma getRotary_count: "getRotary e = signed_drop_bit 1 (count e)"
  by (simp add: getRotary_def ROTARY_TYPE_def)

lemma setRotary_fields:
  "count (setRotary rv rmin rmax rstep v e) = push_bit 1 v"
  "countMin (setRotary rv rmin rmax rstep v e) = push_bit 1 rmin"
  "countMax (setRotary rv rmin rmax rstep v e) = push_bit 1 rmax"
  by (simp_all add: setRotary_def ROTARY_TYPE_def)

lemma getRotary_setRotary:
  assumes "- 16384 \<le> sint v" "sint v < 16384"
  shows "getRotary (setRotary rv rmin rmax rstep v e) = v"
proof -
  have "sint (signed_drop_bit 1 (push_bit 1 v)) = sint v"
    unfolding sint_halve sint_double [OF assms] by simp
  then have "signed_drop_bit 1 (push_bit 1 v) = v"
    by (rule signed_word_eqI)
  then show ?thesis unfolding getRotary_count setRotary_fields .
qed

lemma edges_Cons: "edges ((pb, pd) # ps) e = edges ps (PCINT0_vect pb pd e)"
  by (simp add: edges_def)

lemma edges_clamps:
  assumes "countMin e \<le>s countMax e"
  shows "inBounds (edges ps e) \<or> count (edges ps e) = count e"
  using assms
proof (induction ps arbitrary: e)
  case Nil
  then show ?case by (simp add: edges_def)
next
  case (Cons p ps)
  obtain pb pd where p: "p = (pb, pd)" by (cases p)
  let ?e1 = "PCINT0_vect pb pd e"
  have b: "countMin ?e1 \<le>s countMax ?e1"
    using Cons.prems PCINT0_vect_frame [of pb pd e] by simp
  from PCINT0_vect_clamps [OF Cons.prems, of pb pd]
  show ?case
  proof
    assume "inBounds ?e1"
    with b have "inBounds (edges ps ?e1)" by (rule edges_inBounds)
    then show ?thesis by (simp add: p edges_Cons)
  next
    assume c: "count ?e1 = count e"
    from Cons.IH [OF b] show ?thesis by (auto simp: p edges_Cons c)
  qed
qed

text \<open>
  Claim C7, as stated, fails: \<^verbatim>\<open>setRotary\<close> stores the initial value unclamped, and an edge
  on which the handler applies no step leaves the counter as it is.  After
  \<^verbatim>\<open>setRotary(0, 10, 1, -4)\<close> and an edge on which only phase A changes, the position is
  still -4, below the lower bound 0.
\<close>

theorem encoder_unclamped_start_counterexample:
  "sint (getRotary (edges [(1, 0)] (setRotary False 0 10 1 (- 4) encoder0))) = - 4
   \<and> \<not> 0 \<le> sint (getRotary (edges [(1, 0)] (setRotary False 0 10 1 (- 4) encoder0)))"
  by code_simp



text \<open>
  Claim C7, amended.  The encoder is set up by \<^verbatim>\<open>setRotary\<close> with \<open>min \<le> max\<close>, both in the
  range where doubling does not overflow.  If the initial value lies within the bounds,
  the position read by \<^verbatim>\<open>getRotary\<close> lies within \<open>[min, max]\<close> after every sequence of edges
  handled by the interrupt routine.  For any initial value, after every sequence of edges
  the position lies within \<open>[min, max]\<close> or the counter still holds the value that
  \<^verbatim>\<open>setRotary\<close> stored: every single or double step the handler applies is clamped, and an
  edge without a step changes nothing.  Every prefix of a sequence is a sequence, so this
  holds after every edge.  The runs of the witness reach the upper bound with a clamped
  double step, come down by a double step, and bring a start value below the range back
  into it.
\<close>

theorem encoder_position_in_range:
  assumes "- 16384 \<le> sint rmin" and "sint rmin \<le> sint rmax" and "sint rmax < 16384"
  shows "(sint rmin \<le> sint rvalue \<and> sint rvalue \<le> sint rmax \<longrightarrow>
            sint rmin \<le> sint (getRotary (edges ps (setRotary rv rmin rmax rstep rvalue e)))
          \<and> sint (getRotary (edges ps (setRotary rv rmin rmax rstep rvalue e))) \<le> sint rmax)
       \<and> ((sint rmin \<le> sint (getRotary (edges ps (setRotary rv rmin rmax rstep rvalue e)))
            \<and> sint (getRotary (edges ps (setRotary rv rmin rmax rstep rvalue e))) \<le> sint rmax)
          \<or> count (edges ps (setRotary rv rmin rmax rstep rvalue e))
              = count (setRotary rv rmin rmax rstep rvalue e))"
proof -
  let ?e0 = "setRotary rv rmin rmax rstep rvalue e"
  let ?P = "sint rmin \<le> sint (getRotary (edges ps ?e0))
            \<and> sint (getRotary (edges ps ?e0)) \<le> sint rmax"
  have lo: "sint (countMin ?e0) = 2 * sint rmin"
    unfolding setRotary_fields using assms by (intro sint_double) simp_all
  have hi: "sint (countMax ?e0) = 2 * sint rmax"
    unfolding setRotary_fields using assms by (intro sint_double) simp_all
  have b0: "countMin ?e0 \<le>s countMax ?e0"
    using lo hi assms by (simp add: word_sle_eq)
  have pos: ?P if "inBounds (edges ps ?e0)"
  proof -
    have "2 * sint rmin \<le> sint (count (edges ps ?e0))"
      "sint (count (edges ps ?e0)) \<le> 2 * sint rmax"
      using that lo hi edges_frame [of ps ?e0] by (simp_all add: inBounds_def word_sle_eq)
    then show ?thesis unfolding getRotary_count sint_halve by presburger
  qed
  have start: "inBounds ?e0" if r: "sint rmin \<le> sint rvalue \<and> sint rvalue \<le> sint rmax"
  proof -
    have "sint (count ?e0) = 2 * sint rvalue"
      unfolding setRotary_fields using assms r by (intro sint_double) simp_all
    then show ?thesis using lo hi r by (simp add: inBounds_def word_sle_eq)
  qed
  have a: "sint rmin \<le> sint rvalue \<and> sint rvalue \<le> sint rmax \<longrightarrow> ?P"
    using pos edges_inBounds [OF b0] start by blast
  have b: "?P \<or> count (edges ps ?e0) = count ?e0"
    using pos edges_clamps [OF b0, of ps] by blast
  from a b show ?thesis by blast
qed

lemma encoder_run_down: "getRotary (edges [(1, 128), (0, 0), (1, 0), (0, 128)]
      (setRotary False 150 400 10 400 encoder0)) = 390"
  by code_simp

lemma encoder_run_clamped: "getRotary (edges [(1, 128)] (setRotary False 150 400 10 400 encoder0)) = 400"
  by code_simp

lemma encoder_run_recovered: "getRotary (edges [(1, 0), (0, 128)] (setRotary False 0 10 1 (- 4) encoder0)) = 0"
  by code_simp

theorem encoder_position_in_range_witness:
  "getRotary (edges [(1, 128)] (setRotary False 150 400 10 400 encoder0)) = 400
   \<and> getRotary (edges [(1, 128), (0, 0), (1, 0), (0, 128)]
        (setRotary False 150 400 10 400 encoder0)) = 390
   \<and> 150 \<le> sint (getRotary (edges [(1, 128), (0, 0), (1, 0), (0, 128)]
        (setRotary False 150 400 10 400 encoder0)))
   \<and> sint (getRotary (edges [(1, 128), (0, 0), (1, 0), (0, 128)]
        (setRotary False 150 400 10 400 encoder0))) \<le> 400
   \<and> getRotary (edges [(1, 0), (0, 128)] (setRotary False 0 10 1 (- 4) encoder0)) = 0"
proof -
  have h: "- 16384 \<le> sint (150 :: i16)" "sint (150 :: i16) \<le> sint (400 :: i16)"
    "sint (400 :: i16) < 16384"
    by simp_all
  have r: "sint (150 :: i16) \<le> sint (400 :: i16) \<and> sint (400 :: i16) \<le> sint (400 :: i16)"
    by simp
  note t = encoder_position_in_range [OF h, where rvalue = 400 and rv = False and rstep = 10
      and e = encoder0 and ps = "[(1, 128), (0, 0), (1, 0), (0, 128)]", THEN conjunct1,
      rule_format, OF r]
  have t': "150 \<le> sint (getRotary (edges [(1, 128), (0, 0), (1, 0), (0, 128)]
        (setRotary False 150 400 10 400 encoder0)))
     \<and> sint (getRotary (edges [(1, 128), (0, 0), (1, 0), (0, 128)]
        (setRotary False 150 400 10 400 encoder0))) \<le> 400"
    using t by simp
  from t' encoder_run_down encoder_run_clamped encoder_run_recovered show ?thesis by blast
qed

text \<open>
  Claim C6, as stated, fails: \<^verbatim>\<open>setRotary\<close> stores the initial value without clamping it.
  After \<^verbatim>\<open>setRotary(0, 10, 1, 15)\<close> the position read back is 15, not the clamped 10.
\<close>

theorem setRotary_clamp_counterexample:
  "getRotary (setRotary False 0 10 1 15 encoder0) = 15
   \<and> constrain 15 0 10 = 10
   \<and> getRotary (setRotary False 0 10 1 15 encoder0) \<noteq> constrain 15 0 10"
  by (simp add: getRotary_count setRotary_fields constrain_def word_sless_alt)

text \<open>
  Claim C6, amended.  For every initial value \<open>v\<close> with \<open>-16384 \<le> v < 16384\<close> and all
  bounds and steps, \<^verbatim>\<open>setRotary(min, max, step, v)\<close> followed by \<^verbatim>\<open>getRotary()\<close>, with no edge
  in between, returns \<open>v\<close> itself; this is the clamped value exactly when \<open>v\<close> already lies
  within the bounds.  Clamping happens only when the interrupt routine applies a step.
\<close>

theorem setRotary_then_getRotary:
  assumes "- 16384 \<le> sint v" and "sint v < 16384"
  shows "getRotary (setRotary rv rmin rmax rstep v e) = v
       \<and> (rmin \<le>s v \<and> v \<le>s rmax \<longrightarrow>
            getRotary (setRotary rv rmin rmax rstep v e) = constrain v rmin rmax)"
  using getRotary_setRotary [OF assms]
  by (auto simp: constrain_def word_sle_eq word_sless_alt)

theorem setRotary_then_getRotary_witness:
  "getRotary (setRotary False 150 400 10 320 encoder0) = 320
   \<and> getRotary (setRotary False 150 400 10 320 encoder0) = constrain 320 150 400
   \<and> getRotary (setRotary True 0 10 1 15 encoder0) = 15"
proof -
  have h: "- 16384 \<le> sint (320 :: i16)" "sint (320 :: i16) < 16384"
    and k: "- 16384 \<le> sint (15 :: i16)" "sint (15 :: i16) < 16384" by simp_all
  show ?thesis
    using setRotary_then_getRotary [OF h, of False 150 400 10 encoder0]
      setRotary_then_getRotary [OF k, of True 0 10 1 encoder0]
    by (simp add: word_sle_eq constrain_def word_sless_alt)
qed

section \<open>Properties of the tip profile operations\<close>

lemma AddTipScreen_full:
  assumes "NumberOfTips ts = 8"
  shows "AddTipScreen rot ts = ts"
  using assms by (simp add: AddTipScreen_def TIPMAX_def)

lemma DeleteTipScreen_last:
  assumes "NumberOfTips ts = 1"
  shows "DeleteTipScreen sure ts = ts"
  using assms by (simp add: DeleteTipScreen_def)

lemma setCal_fields:
  "CurrentTip (setCal j v ts) = CurrentTip ts" "NumberOfTips (setCal j v ts) = NumberOfTips ts"
  "TipName (setCal j v ts) = TipName ts"
  "CalTemp (setCal j v ts) i k =
     (if i = unat (CurrentTip ts) \<and> k = j then v else CalTemp ts i k)"
  by (simp_all add: setCal_def)

lemma setName_fields:
  "CurrentTip (setName d v ts) = CurrentTip ts" "NumberOfTips (setName d v ts) = NumberOfTips ts"
  "CalTemp (setName d v ts) = CalTemp ts"
  "TipName (setName d v ts) i k =
     (if i = unat (CurrentTip ts) \<and> k = d then v else TipName ts i k)"
  by (simp_all add: setName_def)

lemma upt6: "[0..<6] = [0, 1, 2, 3, 4, 5]" by code_simp
lemma upt5: "[0..<5] = [0, 1, 2, 3, 4]" by code_simp
lemma upt4: "[0..<4] = [0, 1, 2, 3]" by code_simp

lemma InputNameScreen_fields:
  "CurrentTip (InputNameScreen rot ts) = CurrentTip ts"
  "NumberOfTips (InputNameScreen rot ts) = NumberOfTips ts"
  "CalTemp (InputNameScreen rot ts) = CalTemp ts"
  by (simp_all add: InputNameScreen_def TIPNAMELENGTH_def upt5 setName_fields)

lemma AddTipScreen_adds:
  assumes "unat (NumberOfTips ts) < TIPMAX"
  shows "NumberOfTips (AddTipScreen rot ts) = NumberOfTips ts + 1
       \<and> CurrentTip (AddTipScreen rot ts) = NumberOfTips ts
       \<and> CalTemp (AddTipScreen rot ts) (unat (NumberOfTips ts)) 0 = TEMP200
       \<and> CalTemp (AddTipScreen rot ts) (unat (NumberOfTips ts)) 1 = TEMP280
       \<and> CalTemp (AddTipScreen rot ts) (unat (NumberOfTips ts)) 2 = TEMP360
       \<and> CalTemp (AddTipScreen rot ts) (unat (NumberOfTips ts)) 3 = TEMPCHP
       \<and> TipName (AddTipScreen rot ts) (unat (NumberOfTips ts)) 5 = 0"
  using assms
  by (simp add: AddTipScreen_def Let_def setCal_fields InputNameScreen_fields
      InputNameScreen_def TIPNAMELENGTH_def upt5 setName_fields)

lemma DeleteTipScreen_removes:
  assumes "NumberOfTips ts \<noteq> 1" and "sure \<noteq> 0"
  shows "NumberOfTips (DeleteTipScreen sure ts) = NumberOfTips ts - 1"
proof -
  have "NumberOfTips (fold copyTip is t) = NumberOfTips t" for "is" t
    by (induction "is" arbitrary: t) (simp_all add: copyTip_def TIPNAMELENGTH_def upt6 upt4)
  then show ?thesis using assms by (simp add: DeleteTipScreen_def Let_def)
qed

text \<open>
  Claim C5.  \<^verbatim>\<open>AddTipScreen\<close> on a store that holds 8 profiles, its capacity, and
  \<^verbatim>\<open>DeleteTipScreen\<close> on a store that holds exactly one profile are rejected: each returns
  the store it was given, so the count, every field of every profile and the selection
  index are unchanged, whatever the user enters.
\<close>

theorem tip_store_guards:
  assumes "NumberOfTips ts8 = 8" and "NumberOfTips ts1 = 1"
  shows "AddTipScreen rot ts8 = ts8 \<and> DeleteTipScreen sure ts1 = ts1"
  using AddTipScreen_full [OF assms(1)] DeleteTipScreen_last [OF assms(2)] by simp

theorem tip_store_guards_witness:
  "AddTipScreen (steady 65) (tipstore0\<lparr>NumberOfTips := 8\<rparr>) = tipstore0\<lparr>NumberOfTips := 8\<rparr>
   \<and> DeleteTipScreen 1 tipstore0 = tipstore0"
proof -
  have h: "NumberOfTips (tipstore0\<lparr>NumberOfTips := 8\<rparr>) = 8" "NumberOfTips tipstore0 = 1"
    by (simp_all add: tipstore0_def)
  show ?thesis using tip_store_guards [OF h] by simp
qed

text \<open>
  Claim C4, as stated, fails: a candidate that passes the validation is stored only if the
  user also answers Yes in the menu ``Store Settings ?''.  The candidate (220, 310, 395)
  passes the validation, yet with the answer No the stored first point stays 216.
\<close>

theorem calibration_confirm_counterexample:
  "triple 220 310 395 0 + 10 < triple 220 310 395 1
   \<and> triple 220 310 395 1 + 10 < triple 220 310 395 2
   \<and> CalTemp (CalibrationScreen (triple 220 310 395) (steady 350) 0 tipstore0) 0 0 = 216
   \<and> CalTemp (CalibrationScreen (triple 220 310 395) (steady 350) 0 tipstore0) 0 0 \<noteq> 220"
  by (simp add: triple_def CalibrationScreen_def tipstore0_def TEMP200_def)

text \<open>
  Claim C4, amended.  \<^verbatim>\<open>CalibrationScreen\<close> stores a candidate if and only if
  \<open>point0 + 10 < point1\<close> and \<open>point1 + 10 < point2\<close> (in 16-bit unsigned arithmetic) and the
  user confirms the menu ``Store Settings ?''.  It then replaces the three calibration points
  of the selected tip and records the chip temperature measured at that moment as the
  fourth value.  In every other case the stored profile, and the whole store, is
  unchanged.  The witness has (216, 308, 390) stored on confirmation and (216, 220, 390)
  and (216, 308, 315) rejected.
\<close>

theorem CalibrationScreen_stores:
  "(rot 0 + 10 < rot 1 \<and> rot 1 + 10 < rot 2 \<and> store \<noteq> 0 \<longrightarrow>
      CalibrationScreen rot chipAdc store ts =
        ts\<lparr>CalTemp := (CalTemp ts)(unat (CurrentTip ts) :=
              (CalTemp ts (unat (CurrentTip ts)))
                (0 := rot 0, 1 := rot 1, 2 := rot 2, 3 := d2u16 (getChipTemp chipAdc)))\<rparr>)
   \<and> (\<not> (rot 0 + 10 < rot 1 \<and> rot 1 + 10 < rot 2 \<and> store \<noteq> 0) \<longrightarrow>
        CalibrationScreen rot chipAdc store ts = ts)"
  by (auto simp: CalibrationScreen_def Let_def upt4 setCal_def)

theorem CalibrationScreen_stores_witness:
  "CalTemp (CalibrationScreen (triple 216 308 390) (steady 350) 1 tipstore0) 0 3 = 21
   \<and> CalibrationScreen (triple 216 220 390) (steady 350) 1 tipstore0 = tipstore0
   \<and> CalibrationScreen (triple 216 308 315) (steady 350) 1 tipstore0 = tipstore0"
proof -
  have c: "d2u16 (getChipTemp (steady 350)) = 21" by code_simp
  show ?thesis
    using CalibrationScreen_stores [of "triple 216 308 390" 1 "steady 350" tipstore0]
      CalibrationScreen_stores [of "triple 216 220 390" 1 "steady 350" tipstore0]
      CalibrationScreen_stores [of "triple 216 308 315" 1 "steady 350" tipstore0]
    by (simp add: triple_def c tipstore0_def)
qed

section \<open>Properties of the sensor check and the thermostat\<close>

lemma tipFaultLoop_returns:
  assumes "\<not> 500 < ShowTemp c"
  shows "tipFaultLoop c = Some c"
  using assms by (subst tipFaultLoop.simps) simp

lemma tipFaultBody_ShowTemp: "ShowTemp (tipFaultBody c) = ShowTemp c"
  by (simp add: tipFaultBody_def)

text \<open>One round of the loop switches the heater off and changes nothing else: neither the
  displayed temperature nor the mode.\<close>

lemma tipFaultBody_effect:
  "controlPin (tipFaultBody c) = HEATER_OFF"
  "tipFaultBody c = c\<lparr>controlPin := HEATER_OFF\<rparr>"
  "inSleepMode (tipFaultBody c) = inSleepMode c" "inOffMode (tipFaultBody c) = inOffMode c"
  "inBoostMode (tipFaultBody c) = inBoostMode c"
  by (simp_all add: tipFaultBody_def)

lemma tipFaultLoop_Some:
  assumes "tipFaultLoop c = Some c'"
  shows "\<not> 500 < ShowTemp c"
proof (rule tipFaultLoop.raw_induct [where P = "\<lambda>c c'. \<not> 500 < ShowTemp c", OF _ assms])
  fix loop :: "control \<Rightarrow> control option" and c c'
  assume ih: "\<And>c c'. loop c = Some c' \<Longrightarrow> \<not> 500 < ShowTemp c"
    and st: "(if 500 < ShowTemp c then loop (tipFaultBody c) else Some c) = Some c'"
  show "\<not> 500 < ShowTemp c"
  proof
    assume h: "500 < ShowTemp c"
    then have "loop (tipFaultBody c) = Some c'" using st by simp
    then have "\<not> 500 < ShowTemp (tipFaultBody c)" by (rule ih)
    then show False using h by (simp add: tipFaultBody_ShowTemp)
  qed
qed

lemma tipFaultLoop_diverges:
  assumes "500 < ShowTemp c"
  shows "tipFaultLoop c = None"
proof (cases "tipFaultLoop c")
  case None
  then show ?thesis .
next
  case (Some c')
  then show ?thesis using tipFaultLoop_Some assms by blast
qed

lemma tipFaultLoop_eq: "tipFaultLoop c = (if 500 < ShowTemp c then None else Some c)"
  by (simp add: tipFaultLoop_diverges tipFaultLoop_returns)

lemma SENSORCheck_eq:
  "SENSORCheck sn c = (if 500 < ShowTemp (SENSORRead sn c) then None else Some (SENSORRead sn c))"
  by (simp add: SENSORCheck_def tipFaultLoop_eq)

text \<open>A pass returns exactly when the displayed temperature is at most 500 after the
  readings.\<close>

lemma controlTick_returns:
  "controlTick s pid sn c =
     (if 500 < ShowTemp (SENSORRead sn c) then None
      else Some (Thermostat s pid (SENSORRead sn c)))"
  by (simp add: controlTick_def SENSORCheck_eq)

lemma SLEEPCheck_frame:
  "controlPin (SLEEPCheck r c) = controlPin c" "Vin (SLEEPCheck r c) = Vin c"
  "SensorCounter (SLEEPCheck r c) = SensorCounter c" "Vcc (SLEEPCheck r c) = Vcc c"
  "Output (SLEEPCheck r c) = Output c"
  by (simp_all add: SLEEPCheck_def Let_def)

lemma refreshSlow_frame:
  "controlPin (refreshSlow sn c) = controlPin c" "Output (refreshSlow sn c) = Output c"
  by (simp_all add: refreshSlow_def)

lemma heaterPWM_pin:
  "controlPin (heaterPWM c) = (if 11000 < Vin c then HEATER_PWM (Output c) else controlPin c)"
  "Vin (heaterPWM c) = Vin c" "Output (heaterPWM c) = Output c"
  by (simp_all add: heaterPWM_def)

lemma tail_frame:
  "controlPin (smoothRaw t c) = controlPin c" "Vin (smoothRaw t c) = Vin c"
  "controlPin (calculateTemp c) = controlPin c" "Vin (calculateTemp c) = Vin c"
  "controlPin (stabilizeShow c) = controlPin c" "Vin (stabilizeShow c) = Vin c"
  "controlPin (workyCheck c) = controlPin c" "Vin (workyCheck c) = Vin c"
  by (simp_all add: smoothRaw_def calculateTemp_def stabilizeShow_def workyCheck_def Let_def)

lemma SENSORRead_pin:
  "controlPin (SENSORRead sn c) =
     (if 11000 < Vin (SENSORRead sn c) then HEATER_PWM (Output c) else HEATER_OFF)"
  by (simp add: SENSORRead_def Let_def tail_frame heaterPWM_pin refreshSlow_frame SLEEPCheck_frame)

lemma directControl_frame:
  "Vin (directControl c) = Vin c" "controlPin (directControl c) = controlPin c"
  by (simp_all add: directControl_def)

lemma pidControl_frame:
  "Vin (pidControl pid c) = Vin c" "controlPin (pidControl pid c) = controlPin c"
  by (simp_all add: pidControl_def Let_def)

lemma Thermostat_Vin: "Vin (Thermostat s pid c) = Vin c"
  by (simp add: Thermostat_def Let_def heaterPWM_pin directControl_frame pidControl_frame)

lemma Thermostat_pin:
  "\<not> 11000 < Vin c \<Longrightarrow> controlPin (Thermostat s pid c) = controlPin c"
  by (simp add: Thermostat_def Let_def heaterPWM_pin directControl_frame pidControl_frame)

text \<open>
  Claim C2.  In every pass of the loop that reaches the thermostat, if the input voltage
  \<^verbatim>\<open>Vin\<close> (as last measured, in mV) does not exceed 11000 at the end of the pass, the control
  pin holds \<^verbatim>\<open>HEATER_OFF\<close>: the heater is off, whatever duty the direct ladder or the PID
  controller computed and whatever the settings are.  \<^verbatim>\<open>SENSORCheck\<close> switches the heater off
  first, and neither it nor \<^verbatim>\<open>Thermostat\<close> writes the pin again unless \<^verbatim>\<open>Vin > 11000\<close>.
\<close>

theorem low_voltage_heater_off:
  assumes "controlTick s pid sn c = Some c'" and "\<not> 11000 < Vin c'"
  shows "controlPin c' = HEATER_OFF"
proof -
  from assms(1) obtain c1 where r: "SENSORCheck sn c = Some c1" and t: "c' = Thermostat s pid c1"
    by (auto simp: controlTick_def)
  from r have c1: "c1 = SENSORRead sn c"
    by (simp add: SENSORCheck_eq split: if_splits)
  have v: "\<not> 11000 < Vin c1" using assms(2) t by (simp add: Thermostat_Vin)
  then have "controlPin c1 = HEATER_OFF" unfolding c1 by (simp add: SENSORRead_pin)
  then show ?thesis using v t by (simp add: Thermostat_pin)
qed

lemma denoiseAnalog_steady:
  assumes "unat v \<le> 1023"
  shows "denoiseAnalog (steady v) = v"
proof -
  have "unat (adcSum (steady v) 32) = (\<Sum>i<32. unat (steady v i))"
    using adcSum_exact [of 32 "steady v"] assms by (simp add: steady_def)
  then have "unat (denoiseAnalog (steady v)) = unat v"
    by (simp add: denoiseAnalog_def drop_bit_eq_div unat_div steady_def)
  then show ?thesis by (simp add: word_unat_eq_iff)
qed

lemma SLEEPCheck_keeps:
  "ShowTemp (SLEEPCheck r c) = ShowTemp c" "Setpoint (SLEEPCheck r c) = Setpoint c"
  "CJTemp (SLEEPCheck r c) = CJTemp c" "SetTemp (SLEEPCheck r c) = SetTemp c"
  by (simp_all add: SLEEPCheck_def Let_def)

lemma refreshSlow_keeps:
  "ShowTemp (refreshSlow sn c) = ShowTemp c" "Setpoint (refreshSlow sn c) = Setpoint c"
  "SetTemp (refreshSlow sn c) = SetTemp c"
  "SensorCounter c \<noteq> 0 \<Longrightarrow> CJTemp (refreshSlow sn c) = CJTemp c"
  "SensorCounter c \<noteq> 0 \<Longrightarrow> Vin (refreshSlow sn c) = Vin c"
  by (simp_all add: refreshSlow_def)

lemma heaterPWM_keeps:
  "ShowTemp (heaterPWM c) = ShowTemp c" "Setpoint (heaterPWM c) = Setpoint c"
  "CJTemp (heaterPWM c) = CJTemp c" "SetTemp (heaterPWM c) = SetTemp c"
  by (simp_all add: heaterPWM_def)

lemma smoothRaw_keeps:
  "ShowTemp (smoothRaw t c) = ShowTemp c" "Setpoint (smoothRaw t c) = Setpoint c"
  "CJTemp (smoothRaw t c) = CJTemp c" "RawTemp (smoothRaw t c) = u2d t"
  by (simp_all add: smoothRaw_def)

lemma calculateTemp_keeps:
  "ShowTemp (calculateTemp c) = ShowTemp c" "Setpoint (calculateTemp c) = Setpoint c"
  "CurrentTemp (calculateTemp c) = RawTemp c * 0.836 + 8.91 + (CJTemp c - 25)"
  by (simp_all add: calculateTemp_def)

lemma stabilizeShow_ShowTemp:
  "ShowTemp (stabilizeShow c) =
     (let sh = (if u2d (ShowTemp c) \<noteq> Setpoint c \<or> 5 < absd (u2d (ShowTemp c) - CurrentTemp c)
                then d2u16 (CurrentTemp c) else ShowTemp c)
      in if absd (u2d sh - Setpoint c) \<le> 1 then d2u16 (Setpoint c) else sh)"
  by (simp add: stabilizeShow_def Let_def)

lemma workyCheck_keeps: "ShowTemp (workyCheck c) = ShowTemp c"
  by (simp add: workyCheck_def Let_def)

text \<open>The displayed temperature after the readings, between two refreshes of the slow
  channels.\<close>

lemma SENSORRead_ShowTemp:
  assumes "SensorCounter c \<noteq> 0"
  shows "ShowTemp (SENSORRead sn c) =
     (let cur = u2d (denoiseAnalog (tempAdc sn)) * 0.836 + 8.91 + (CJTemp c - 25);
          sh = (if u2d (ShowTemp c) \<noteq> Setpoint c \<or> 5 < absd (u2d (ShowTemp c) - cur)
                then d2u16 cur else ShowTemp c)
      in if absd (u2d sh - Setpoint c) \<le> 1 then d2u16 (Setpoint c) else sh)"
proof -
  let ?c2 = "SLEEPCheck (reedAdc sn) (c\<lparr>controlPin := HEATER_OFF\<rparr>)"
  have n: "SensorCounter ?c2 \<noteq> 0" using assms by (simp add: SLEEPCheck_frame)
  let ?c6 = "calculateTemp (smoothRaw (denoiseAnalog (tempAdc sn)) (heaterPWM (refreshSlow sn ?c2)))"
  have f: "ShowTemp ?c6 = ShowTemp c" "Setpoint ?c6 = Setpoint c"
    "CurrentTemp ?c6 = u2d (denoiseAnalog (tempAdc sn)) * 0.836 + 8.91 + (CJTemp c - 25)"
    using n by (simp_all add: calculateTemp_keeps smoothRaw_keeps heaterPWM_keeps
        refreshSlow_keeps SLEEPCheck_keeps)
  have "ShowTemp (SENSORRead sn c) = ShowTemp (stabilizeShow ?c6)"
    by (simp add: SENSORRead_def Let_def workyCheck_keeps)
  then show ?thesis unfolding stabilizeShow_ShowTemp f by (simp add: Let_def)
qed

lemma SENSORRead_Vin:
  assumes "SensorCounter c \<noteq> 0"
  shows "Vin (SENSORRead sn c) = Vin c"
proof -
  have "SensorCounter (SLEEPCheck (reedAdc sn) (c\<lparr>controlPin := HEATER_OFF\<rparr>)) \<noteq> 0"
    using assms by (simp add: SLEEPCheck_frame)
  then show ?thesis
    by (simp add: SENSORRead_def Let_def tail_frame heaterPWM_pin refreshSlow_keeps SLEEPCheck_frame)
qed

lemma running_fields:
  "SensorCounter (running v) = 255" "ShowTemp (running v) = 0" "Setpoint (running v) = 0"
  "CJTemp (running v) = 30" "Vin (running v) = v" "SetTemp (running v) = 320"
  by (simp_all add: running_def control0_def)

lemma bench_fields: "tempAdc (bench t) = steady t"
  by (simp add: bench_def)

lemma bench_300: "ShowTemp (SENSORRead (bench 300) (running 10000)) = 264"
  by (simp add: SENSORRead_ShowTemp running_fields bench_fields denoiseAnalog_steady
      u2d_def absd_def d2u16_def d2i_def)

lemma bench_1023: "ShowTemp (SENSORRead (bench 1023) (running 12000)) = 869"
  by (simp add: SENSORRead_ShowTemp running_fields bench_fields denoiseAnalog_steady
      u2d_def absd_def d2u16_def d2i_def)

lemma bench_300_vin: "Vin (SENSORRead (bench 300) (running 10000)) = 10000"
  by (simp add: SENSORRead_Vin running_fields)


lemma SLEEPCheck_modes:
  "inBoostMode (SLEEPCheck r c) = inBoostMode c"
  "inOffMode (SLEEPCheck r (c\<lparr>controlPin := p\<rparr>)) = inOffMode (SLEEPCheck r c)"
  "inSleepMode (SLEEPCheck r (c\<lparr>controlPin := p\<rparr>)) = inSleepMode (SLEEPCheck r c)"
  by (simp_all add: SLEEPCheck_def Let_def)

lemma step_modes:
  "inOffMode (refreshSlow sn c) = inOffMode c" "inSleepMode (refreshSlow sn c) = inSleepMode c"
  "inBoostMode (refreshSlow sn c) = inBoostMode c"
  "inOffMode (heaterPWM c) = inOffMode c" "inSleepMode (heaterPWM c) = inSleepMode c"
  "inBoostMode (heaterPWM c) = inBoostMode c"
  "inOffMode (smoothRaw t c) = inOffMode c" "inSleepMode (smoothRaw t c) = inSleepMode c"
  "inBoostMode (smoothRaw t c) = inBoostMode c" "SetTemp (smoothRaw t c) = SetTemp c"
  "inOffMode (calculateTemp c) = inOffMode c" "inSleepMode (calculateTemp c) = inSleepMode c"
  "inBoostMode (calculateTemp c) = inBoostMode c" "SetTemp (calculateTemp c) = SetTemp c"
  "inOffMode (stabilizeShow c) = inOffMode c" "inSleepMode (stabilizeShow c) = inSleepMode c"
  "inBoostMode (stabilizeShow c) = inBoostMode c" "SetTemp (stabilizeShow c) = SetTemp c"
  "CurrentTemp (stabilizeShow c) = CurrentTemp c"
  "inOffMode (workyCheck c) = inOffMode c" "inSleepMode (workyCheck c) = inSleepMode c"
  "inBoostMode (workyCheck c) = inBoostMode c" "SetTemp (workyCheck c) = SetTemp c"
  "CurrentTemp (workyCheck c) = CurrentTemp c"
  by (simp_all add: refreshSlow_def heaterPWM_def smoothRaw_def calculateTemp_def
      stabilizeShow_def workyCheck_def Let_def)

text \<open>\<^verbatim>\<open>SENSORCheck\<close> changes the mode only through \<^verbatim>\<open>SLEEPCheck\<close>.\<close>

lemma SENSORRead_modes:
  "inOffMode (SENSORRead sn c) = inOffMode (SLEEPCheck (reedAdc sn) c)"
  "inSleepMode (SENSORRead sn c) = inSleepMode (SLEEPCheck (reedAdc sn) c)"
  "inBoostMode (SENSORRead sn c) = inBoostMode c"
  "SetTemp (SENSORRead sn c) = SetTemp c"
  by (simp_all add: SENSORRead_def Let_def step_modes SLEEPCheck_modes SLEEPCheck_keeps
      refreshSlow_keeps heaterPWM_keeps)

lemma SENSORRead_CurrentTemp:
  assumes "SensorCounter c \<noteq> 0"
  shows "CurrentTemp (SENSORRead sn c) =
     u2d (denoiseAnalog (tempAdc sn)) * 0.836 + 8.91 + (CJTemp c - 25)"
proof -
  have "SensorCounter (SLEEPCheck (reedAdc sn) (c\<lparr>controlPin := HEATER_OFF\<rparr>)) \<noteq> 0"
    using assms by (simp add: SLEEPCheck_frame)
  then show ?thesis
    by (simp add: SENSORRead_def Let_def step_modes calculateTemp_keeps smoothRaw_keeps
        heaterPWM_keeps refreshSlow_keeps SLEEPCheck_keeps)
qed

lemma Thermostat_direct:
  assumes "\<not> PIDenable s"
  shows "Setpoint (Thermostat s pid c) = modeSetpoint s c"
    and "Output (Thermostat s pid c) = specLadder (modeSetpoint s c - CurrentTemp c)"
  using assms
  by (simp_all add: Thermostat_def Let_def heaterPWM_def directControl_def specLadder_def)

lemma held_modes:
  "inOffMode (SLEEPCheck (steady 100) c) = False" "inSleepMode (SLEEPCheck (steady 100) c) = False"
  by (simp_all add: SLEEPCheck_def denoiseAnalog_steady)

lemma bench_300_out:
  "Output (Thermostat settings0 pidHold (SENSORRead (bench 300) (running 10000))) = 255"
proof -
  have m: "modeSetpoint settings0 (SENSORRead (bench 300) (running 10000)) = 320"
    by (simp add: modeSetpoint_def SENSORRead_modes bench_def held_modes running_def
        control0_def u2d_def)
  have t: "CurrentTemp (SENSORRead (bench 300) (running 10000)) = 264.71"
    by (simp add: SENSORRead_CurrentTemp running_fields bench_fields denoiseAnalog_steady u2d_def)
  have "\<not> PIDenable settings0" by (simp add: settings0_def)
  then show ?thesis
    by (simp add: Thermostat_direct m t specLadder_def)
qed

theorem low_voltage_heater_off_witness:
  "controlTick settings0 pidHold (bench 300) (running 10000)
     = Some (Thermostat settings0 pidHold (SENSORRead (bench 300) (running 10000)))
   \<and> Output (Thermostat settings0 pidHold (SENSORRead (bench 300) (running 10000))) = 255
   \<and> controlPin (Thermostat settings0 pidHold (SENSORRead (bench 300) (running 10000)))
       = HEATER_OFF"
proof -
  have e: "controlTick settings0 pidHold (bench 300) (running 10000)
     = Some (Thermostat settings0 pidHold (SENSORRead (bench 300) (running 10000)))"
    by (simp add: controlTick_def SENSORCheck_eq bench_300)
  have v: "\<not> 11000 < Vin (Thermostat settings0 pidHold (SENSORRead (bench 300) (running 10000)))"
    by (simp add: Thermostat_Vin bench_300_vin)
  show ?thesis using e bench_300_out low_voltage_heater_off [OF e v] by simp
qed

text \<open>
  Claim C1 says that a displayed temperature above 500 forces the heater off and is
  recovered locally, control proceeding once the reading is plausible again.  The loop
  that handles it, \<^verbatim>\<open>while (ShowTemp > 500)\<close>, switches the heater off but never reads the
  sensor again, so \<^verbatim>\<open>ShowTemp\<close> cannot change and the loop does not end
  (\<open>tipFaultLoop_diverges\<close>).  With the tip sensor reading 1023 (open sensor) the displayed
  temperature becomes 869 and neither \<^verbatim>\<open>SENSORCheck\<close> nor the pass of the loop returns.
\<close>

theorem sensor_fault_never_returns:
  "ShowTemp (SENSORRead (bench 1023) (running 12000)) = 869
   \<and> SENSORCheck (bench 1023) (running 12000) = None
   \<and> controlTick settings0 pidHold (bench 1023) (running 12000) = None"
  by (simp add: bench_1023 SENSORCheck_eq controlTick_def)

text \<open>
  Claim C3, as stated, fails: the duty is not selected by the magnitude of the gap.  With
  the setpoint 320 and the current temperature 380 the magnitude of the gap is 60, for which
  the ladder has 255, but the duty is 0: the code heats only when the tip is colder than
  the setpoint.
\<close>

theorem direct_ladder_magnitude_counterexample:
  "modeSetpoint settings0 ((running 12000)\<lparr>CurrentTemp := 380\<rparr>) = 320
   \<and> specLadder \<bar>modeSetpoint settings0 ((running 12000)\<lparr>CurrentTemp := 380\<rparr>)
                   - CurrentTemp ((running 12000)\<lparr>CurrentTemp := 380\<rparr>)\<bar> = 255
   \<and> Output (Thermostat settings0 pidHold ((running 12000)\<lparr>CurrentTemp := 380\<rparr>)) = 0"
proof -
  have h: "\<not> PIDenable settings0" by (simp add: settings0_def)
  have m: "modeSetpoint settings0 ((running 12000)\<lparr>CurrentTemp := 380\<rparr>) = 320"
    by (simp add: modeSetpoint_def running_def control0_def u2d_def)
  show ?thesis
    using Thermostat_direct(2) [OF h, of pidHold "(running 12000)\<lparr>CurrentTemp := 380\<rparr>"]
    by (simp add: m specLadder_def)
qed

text \<open>
  Claim C3, amended.  Under the direct strategy (PID disabled) \<^verbatim>\<open>Thermostat\<close> sets the
  setpoint of the current mode and selects the duty from the fixed ladder by the signed gap,
  the setpoint minus the current temperature: above 50 it is 255, above 25 it is 128, above
  5 it is 32, above 0.5 it is 8, otherwise, and so whenever the tip is as hot as the
  setpoint or hotter, 0.  The previous output does not enter the result: no state is carried
  between two passes.  The witness has the gaps 20, 26, 51 and 0.3 with the duties 32, 128,
  255 and 0.
\<close>

theorem direct_ladder:
  assumes "\<not> PIDenable s"
  shows "Setpoint (Thermostat s pid c) = modeSetpoint s c
       \<and> Output (Thermostat s pid c) = specLadder (modeSetpoint s c - CurrentTemp c)
       \<and> Output (Thermostat s pid (c\<lparr>Output := x\<rparr>)) = Output (Thermostat s pid c)"
proof -
  have "modeSetpoint s (c\<lparr>Output := x\<rparr>) = modeSetpoint s c"
    by (simp add: modeSetpoint_def)
  then show ?thesis
    using Thermostat_direct [OF assms, of pid c] Thermostat_direct [OF assms, of pid "c\<lparr>Output := x\<rparr>"]
    by simp
qed

lemma direct_overshoot:
  assumes "\<not> PIDenable s" and "modeSetpoint s c \<le> CurrentTemp c"
  shows "Output (Thermostat s pid c) = 0"
  using Thermostat_direct(2) [OF assms(1), of pid c] assms(2) by (simp add: specLadder_def)

theorem direct_ladder_witness:
  "Output (Thermostat settings0 pidHold ((running 12000)\<lparr>CurrentTemp := 300\<rparr>)) = 32
   \<and> Output (Thermostat settings0 pidHold ((running 12000)\<lparr>CurrentTemp := 294\<rparr>)) = 128
   \<and> Output (Thermostat settings0 pidHold ((running 12000)\<lparr>CurrentTemp := 269\<rparr>)) = 255
   \<and> Output (Thermostat settings0 pidHold ((running 12000)\<lparr>CurrentTemp := 319.7\<rparr>)) = 0"
proof -
  have h: "\<not> PIDenable settings0" by (simp add: settings0_def)
  have m: "modeSetpoint settings0 ((running 12000)\<lparr>CurrentTemp := t\<rparr>) = 320" for t
    by (simp add: modeSetpoint_def running_def control0_def u2d_def)
  show ?thesis
    using direct_ladder [OF h, of pidHold "(running 12000)\<lparr>CurrentTemp := 300\<rparr>"]
      direct_ladder [OF h, of pidHold "(running 12000)\<lparr>CurrentTemp := 294\<rparr>"]
      direct_ladder [OF h, of pidHold "(running 12000)\<lparr>CurrentTemp := 269\<rparr>"]
      direct_ladder [OF h, of pidHold "(running 12000)\<lparr>CurrentTemp := 319.7\<rparr>"]
    by (simp add: m specLadder_def)
qed

section \<open>Properties of the persistence\<close>

lemma bit_255: "bit (255 :: int) n = (n < 8)"
proof -
  have m: "(255 :: int) = mask 8" by (simp add: mask_eq_exp_minus_1)
  show ?thesis unfolding m bit_mask_iff by auto
qed

lemma lo8_bit: "bit (lo8 w) n = (bit w n \<and> n < 8)"
  unfolding lo8_def by (auto simp add: bit_simps bit_255)

lemma hi8_bit: "bit (hi8 w) n = (bit w (8 + n) \<and> n < 8)"
  unfolding hi8_def by (auto simp add: bit_simps)

lemma mk16_bit: "bit (mk16 h l) n = (if n < 8 then bit l n else n < 16 \<and> bit h (n - 8))"
  unfolding mk16_def by (auto simp add: bit_simps dest: bit_imp_le_length)

lemma mk16_split: "mk16 (hi8 w) (lo8 w) = w"
  by (rule bit_word_eqI) (auto simp: mk16_bit lo8_bit hi8_bit)


lemma b2u8_back: "(b2u8 b \<noteq> 0) = b"
  by (simp add: b2u8_def)

subsection \<open>What the write loops leave in the EEPROM\<close>

lemma updateTip_fst: "fst (updateTip ts i (c, e)) = c + 14"
  by (simp add: updateTip_def upt6 upt4 TIPNAMELENGTH_def)

lemma updateTip_snd:
  "snd (updateTip ts i (c, e)) =
     (\<lambda>a. if c \<le> a \<and> a < c + 14 then tipByte ts i (a - c) else e a)"
  apply (rule ext)
  apply (auto simp: updateTip_def upt6 upt4 TIPNAMELENGTH_def tipByte_def)
     apply arith+
  done

lemma updateTip_eq:
  "updateTip ts i (c, e) =
     (c + 14, \<lambda>a. if c \<le> a \<and> a < c + 14 then tipByte ts i (a - c) else e a)"
  using updateTip_fst [of ts i c e] updateTip_snd [of ts i c e]
  by (metis prod.collapse)

lemma block14:
  fixes a c n :: nat
  assumes "c + 14 * n \<le> a" and "a < c + 14 * n + 14"
  shows "(a - c) div 14 = n" and "(a - c) mod 14 = a - (c + 14 * n)"
proof -
  have d: "a - c = n * 14 + (a - (c + 14 * n))" using assms by simp
  have r: "a - (c + 14 * n) < 14" using assms by simp
  show "(a - c) div 14 = n" by (subst d) (use r in simp)
  show "(a - c) mod 14 = a - (c + 14 * n)" by (subst d) (use r in simp)
qed

lemma write_loop:
  "fold (updateTip ts) [0..<n] (c, e) =
     (c + 14 * n,
      \<lambda>a. if c \<le> a \<and> a < c + 14 * n then tipByte ts ((a - c) div 14) ((a - c) mod 14)
          else e a)"
proof (induction n)
  case 0
  show ?case by (auto simp: fun_eq_iff)
next
  case (Suc n)
  have "(\<lambda>a. if c + 14 * n \<le> a \<and> a < c + 14 * n + 14 then tipByte ts n (a - (c + 14 * n))
             else if c \<le> a \<and> a < c + 14 * n
                  then tipByte ts ((a - c) div 14) ((a - c) mod 14) else e a)
      = (\<lambda>a. if c \<le> a \<and> a < c + 14 * Suc n
              then tipByte ts ((a - c) div 14) ((a - c) mod 14) else e a)"
  proof (rule ext)
    fix a
    show "(if c + 14 * n \<le> a \<and> a < c + 14 * n + 14 then tipByte ts n (a - (c + 14 * n))
             else if c \<le> a \<and> a < c + 14 * n
                  then tipByte ts ((a - c) div 14) ((a - c) mod 14) else e a)
      = (if c \<le> a \<and> a < c + 14 * Suc n
              then tipByte ts ((a - c) div 14) ((a - c) mod 14) else e a)"
    proof (cases "c + 14 * n \<le> a \<and> a < c + 14 * n + 14")
      case True
      then show ?thesis using block14 [of c n a] by simp
    next
      case False
      then show ?thesis by auto
    qed
  qed
  then show ?case by (simp add: Suc.IH updateTip_eq)
qed


lemma updateEEPROM_low:
  assumes "a < 17"
  shows "updateEEPROM s ts e a =
     (e(2 := hi8 (DefaultTemp s), 3 := lo8 (DefaultTemp s),
        4 := hi8 (SleepTemp s), 5 := lo8 (SleepTemp s),
        6 := BoostTemp s, 7 := time2sleep s, 8 := time2off s, 9 := timeOfBoost s,
        10 := MainScrType s, 11 := b2u8 (PIDenable s), 12 := b2u8 (beepEnable s),
        13 := b2u8 (BodyFlip s), 14 := b2u8 (ECReverse s),
        15 := CurrentTip ts, 16 := NumberOfTips ts)) a"
  using assms unfolding updateEEPROM_def Let_def write_loop by simp

lemma updateEEPROM_tip:
  assumes "i < unat (NumberOfTips ts)" and "k < 14"
  shows "updateEEPROM s ts e (17 + 14 * i + k) = tipByte ts i k"
proof -
  have a: "17 + 14 * i + k < 17 + 14 * unat (NumberOfTips ts)" using assms by simp
  have d: "(17 + 14 * i + k - 17) div 14 = i" "(17 + 14 * i + k - 17) mod 14 = k"
    using assms(2) by simp_all
  show ?thesis
    unfolding updateEEPROM_def Let_def write_loop using a d by simp
qed


subsection \<open>What the read loops leave in the tip store\<close>

lemma getTip_fst: "fst (getTip e i (c, ts)) = c + 14"
  by (simp add: getTip_def upt6 upt4 TIPNAMELENGTH_def)

lemma getTip_sel:
  "CurrentTip (snd (getTip e i (c, ts))) = CurrentTip ts"
  "NumberOfTips (snd (getTip e i (c, ts))) = NumberOfTips ts"
  by (simp_all add: getTip_def upt6 upt4 TIPNAMELENGTH_def)

lemma getTip_name:
  "TipName (snd (getTip e i (c, ts))) i' j =
     (if i' = i \<and> j < 6 then e (c + j) else TipName ts i' j)"
proof (cases "i' = i \<and> j < 6")
  case True
  then have "j = 0 \<or> j = 1 \<or> j = 2 \<or> j = 3 \<or> j = 4 \<or> j = 5" by arith
  then show ?thesis using True
    by (elim disjE) (simp_all add: getTip_def upt6 upt4 TIPNAMELENGTH_def eval_nat_numeral)
next
  case False
  then show ?thesis
    by (auto simp: getTip_def upt6 upt4 TIPNAMELENGTH_def)
qed

lemma getTip_cal:
  "CalTemp (snd (getTip e i (c, ts))) i' j =
     (if i' = i \<and> j < 4 then mk16 (e (c + 6 + 2 * j)) (e (c + 7 + 2 * j)) else CalTemp ts i' j)"
proof (cases "i' = i \<and> j < 4")
  case True
  then have "j = 0 \<or> j = 1 \<or> j = 2 \<or> j = 3" by arith
  then show ?thesis using True
    by (elim disjE) (simp_all add: getTip_def upt6 upt4 TIPNAMELENGTH_def eval_nat_numeral)
next
  case False
  then show ?thesis
    by (auto simp: getTip_def upt6 upt4 TIPNAMELENGTH_def)
qed

lemma read_loop:
  "fst (fold (getTip e) [0..<n] (c, ts)) = c + 14 * n
   \<and> CurrentTip (snd (fold (getTip e) [0..<n] (c, ts))) = CurrentTip ts
   \<and> NumberOfTips (snd (fold (getTip e) [0..<n] (c, ts))) = NumberOfTips ts
   \<and> (\<forall>i j. TipName (snd (fold (getTip e) [0..<n] (c, ts))) i j =
          (if i < n \<and> j < 6 then e (c + 14 * i + j) else TipName ts i j))
   \<and> (\<forall>i j. CalTemp (snd (fold (getTip e) [0..<n] (c, ts))) i j =
          (if i < n \<and> j < 4 then mk16 (e (c + 14 * i + 6 + 2 * j)) (e (c + 14 * i + 7 + 2 * j))
           else CalTemp ts i j))"
proof (induction n)
  case 0
  show ?case by simp
next
  case (Suc n)
  obtain c' ts' where r: "fold (getTip e) [0..<n] (c, ts) = (c', ts')"
    by (cases "fold (getTip e) [0..<n] (c, ts)")
  have ih: "c' = c + 14 * n" "CurrentTip ts' = CurrentTip ts" "NumberOfTips ts' = NumberOfTips ts"
    "\<And>i j. TipName ts' i j = (if i < n \<and> j < 6 then e (c + 14 * i + j) else TipName ts i j)"
    "\<And>i j. CalTemp ts' i j =
       (if i < n \<and> j < 4 then mk16 (e (c + 14 * i + 6 + 2 * j)) (e (c + 14 * i + 7 + 2 * j))
        else CalTemp ts i j)"
    using Suc.IH unfolding r by simp_all
  have s: "fold (getTip e) [0..<Suc n] (c, ts) = getTip e n (c', ts')"
    by (simp add: r)
  show ?case
    unfolding s
    by (auto simp: getTip_fst getTip_sel getTip_name getTip_cal ih ac_simps less_Suc_eq)
qed


subsection \<open>Persist, then load\<close>

lemma tipByte_name: "j < 6 \<Longrightarrow> tipByte ts i j = TipName ts i j"
  by (simp add: tipByte_def TIPNAMELENGTH_def)

lemma tipByte_cal:
  assumes "j < 4"
  shows "mk16 (tipByte ts i (6 + 2 * j)) (tipByte ts i (7 + 2 * j)) = CalTemp ts i j"
proof -
  have "tipByte ts i (6 + 2 * j) = hi8 (CalTemp ts i j)"
    by (simp add: tipByte_def TIPNAMELENGTH_def)
  moreover have "tipByte ts i (7 + 2 * j) = lo8 (CalTemp ts i j)"
    by (simp add: tipByte_def TIPNAMELENGTH_def)
  ultimately show ?thesis by (simp add: mk16_split)
qed

lemma load_after_update:
  assumes "mk16 (e 0) (e 1) = EEPROM_IDENT"
  shows "fst (getEEPROM s' ts' (updateEEPROM s ts e)) = s"
    and "CurrentTip (fst (snd (getEEPROM s' ts' (updateEEPROM s ts e)))) = CurrentTip ts"
    and "NumberOfTips (fst (snd (getEEPROM s' ts' (updateEEPROM s ts e)))) = NumberOfTips ts"
    and "i < unat (NumberOfTips ts) \<Longrightarrow> j < 6 \<Longrightarrow>
           TipName (fst (snd (getEEPROM s' ts' (updateEEPROM s ts e)))) i j = TipName ts i j"
    and "i < unat (NumberOfTips ts) \<Longrightarrow> j < 4 \<Longrightarrow>
           CalTemp (fst (snd (getEEPROM s' ts' (updateEEPROM s ts e)))) i j = CalTemp ts i j"
    and "snd (snd (getEEPROM s' ts' (updateEEPROM s ts e))) = updateEEPROM s ts e"
proof -
  let ?E = "updateEEPROM s ts e"
  let ?n = "unat (NumberOfTips ts)"
  let ?t1 = "ts'\<lparr>CurrentTip := CurrentTip ts, NumberOfTips := NumberOfTips ts\<rparr>"
  have low: "?E 0 = e 0" "?E 1 = e 1"
    "?E 2 = hi8 (DefaultTemp s)" "?E 3 = lo8 (DefaultTemp s)"
    "?E 4 = hi8 (SleepTemp s)" "?E 5 = lo8 (SleepTemp s)"
    "?E 6 = BoostTemp s" "?E 7 = time2sleep s" "?E 8 = time2off s" "?E 9 = timeOfBoost s"
    "?E 10 = MainScrType s" "?E 11 = b2u8 (PIDenable s)" "?E 12 = b2u8 (beepEnable s)"
    "?E 13 = b2u8 (BodyFlip s)" "?E 14 = b2u8 (ECReverse s)"
    "?E 15 = CurrentTip ts" "?E 16 = NumberOfTips ts"
    by (simp_all add: updateEEPROM_low)
  have g: "getEEPROM s' ts' ?E = (s, snd (fold (getTip ?E) [0..<?n] (17, ?t1)), ?E)"
    unfolding getEEPROM_def Let_def low using assms
    by (simp add: mk16_split b2u8_back)
  note r = read_loop [of ?E ?n 17 ?t1]
  show "fst (getEEPROM s' ts' ?E) = s" by (simp add: g)
  show "snd (snd (getEEPROM s' ts' ?E)) = ?E" by (simp add: g)
  show "CurrentTip (fst (snd (getEEPROM s' ts' ?E))) = CurrentTip ts"
    using r by (simp add: g)
  show "NumberOfTips (fst (snd (getEEPROM s' ts' ?E))) = NumberOfTips ts"
    using r by (simp add: g)
  show "TipName (fst (snd (getEEPROM s' ts' ?E))) i j = TipName ts i j"
    if a: "i < ?n" "j < 6"
  proof -
    have "TipName (fst (snd (getEEPROM s' ts' ?E))) i j = ?E (17 + 14 * i + j)"
      using r a by (simp add: g)
    also have "\<dots> = tipByte ts i j"
      using a by (intro updateEEPROM_tip) simp_all
    finally show ?thesis using a by (simp add: tipByte_name)
  qed
  show "CalTemp (fst (snd (getEEPROM s' ts' ?E))) i j = CalTemp ts i j"
    if a: "i < ?n" "j < 4"
  proof -
    have "CalTemp (fst (snd (getEEPROM s' ts' ?E))) i j
          = mk16 (?E (17 + 14 * i + 6 + 2 * j)) (?E (17 + 14 * i + 7 + 2 * j))"
      using r a by (simp add: g)
    moreover have "?E (17 + 14 * i + (6 + 2 * j)) = tipByte ts i (6 + 2 * j)"
      using a by (intro updateEEPROM_tip) simp_all
    moreover have "?E (17 + 14 * i + (7 + 2 * j)) = tipByte ts i (7 + 2 * j)"
      using a by (intro updateEEPROM_tip) simp_all
    ultimately show ?thesis using a by (simp add: tipByte_cal add.assoc)
  qed
qed


lemma getEEPROM_mismatch:
  assumes "mk16 (e 0) (e 1) \<noteq> EEPROM_IDENT"
  shows "getEEPROM s ts e =
     (s, ts, updateEEPROM s ts (e(0 := hi8 EEPROM_IDENT, 1 := lo8 EEPROM_IDENT)))"
  using assms by (simp add: getEEPROM_def Let_def)

lemma ident_written:
  "mk16 (updateEEPROM s ts (e(0 := hi8 EEPROM_IDENT, 1 := lo8 EEPROM_IDENT)) 0)
        (updateEEPROM s ts (e(0 := hi8 EEPROM_IDENT, 1 := lo8 EEPROM_IDENT)) 1) = EEPROM_IDENT"
  by (simp add: updateEEPROM_low mk16_split)

text \<open>The defaults, as the source defines them.\<close>

lemma defaults_documented:
  "settings0 = \<lparr>DefaultTemp = 320, SleepTemp = 150, BoostTemp = 50, time2sleep = 5,
     time2off = 15, timeOfBoost = 40, MainScrType = 1, PIDenable = False, beepEnable = True,
     BodyFlip = False, ECReverse = False\<rparr>"
  "NumberOfTips tipstore0 = 1" "CurrentTip tipstore0 = 0"
  "map (TipName tipstore0 0) [0, 1, 2, 3, 4, 5] = [87, 77, 82, 84, 0, 0]"
  "map (CalTemp tipstore0 0) [0, 1, 2, 3] = [216, 308, 390, 30]"
  by (simp_all add: settings0_def tipstore0_def TEMP_DEFAULT_def TEMP_SLEEP_def TEMP_BOOST_def
      TIME2SLEEP_def TIME2OFF_def TIMEOFBOOST_def MAINSCREEN_def TIPNAME_def TEMP200_def
      TEMP280_def TEMP360_def TEMPCHP_def)

text \<open>
  Claim C8.  For settings \<open>s\<close> and a tip store \<open>ts\<close> of at most \<open>TIPMAX\<close> tips:
  if the EEPROM carries the format identifier, \<^verbatim>\<open>updateEEPROM\<close> followed by \<^verbatim>\<open>getEEPROM\<close>,
  into whatever the variables held before, gives back every setting and flag, the
  selection index, the tip count and, for every tip below the count, the six name bytes
  and the four calibration values, and leaves the EEPROM as persisted.  If the identifier
  does not match when \<^verbatim>\<open>setup\<close> loads the EEPROM (the variables then hold their
  initialisers, the defaults), \<^verbatim>\<open>getEEPROM\<close> keeps the default settings and the single
  default tip, writes the identifier and persists these defaults; loading that EEPROM
  again gives the defaults back.
\<close>

theorem persistence_roundtrip:
  assumes "unat (NumberOfTips ts) \<le> TIPMAX"
  shows "(mk16 (e 0) (e 1) = EEPROM_IDENT \<longrightarrow>
            fst (getEEPROM s' ts' (updateEEPROM s ts e)) = s
          \<and> CurrentTip (fst (snd (getEEPROM s' ts' (updateEEPROM s ts e)))) = CurrentTip ts
          \<and> NumberOfTips (fst (snd (getEEPROM s' ts' (updateEEPROM s ts e)))) = NumberOfTips ts
          \<and> (\<forall>i<unat (NumberOfTips ts).
                (\<forall>j<TIPNAMELENGTH.
                   TipName (fst (snd (getEEPROM s' ts' (updateEEPROM s ts e)))) i j = TipName ts i j)
              \<and> (\<forall>j<4.
                   CalTemp (fst (snd (getEEPROM s' ts' (updateEEPROM s ts e)))) i j = CalTemp ts i j))
          \<and> snd (snd (getEEPROM s' ts' (updateEEPROM s ts e))) = updateEEPROM s ts e)
       \<and> (mk16 (e 0) (e 1) \<noteq> EEPROM_IDENT \<longrightarrow>
            fst (getEEPROM settings0 tipstore0 e) = settings0
          \<and> fst (snd (getEEPROM settings0 tipstore0 e)) = tipstore0
          \<and> snd (snd (getEEPROM settings0 tipstore0 e))
              = updateEEPROM settings0 tipstore0 (e(0 := hi8 EEPROM_IDENT, 1 := lo8 EEPROM_IDENT))
          \<and> fst (getEEPROM s' ts' (snd (snd (getEEPROM settings0 tipstore0 e)))) = settings0
          \<and> NumberOfTips (fst (snd (getEEPROM s' ts' (snd (snd (getEEPROM settings0 tipstore0 e))))))
              = 1
          \<and> CurrentTip (fst (snd (getEEPROM s' ts' (snd (snd (getEEPROM settings0 tipstore0 e))))))
              = 0
          \<and> (\<forall>j<TIPNAMELENGTH.
                TipName (fst (snd (getEEPROM s' ts' (snd (snd (getEEPROM settings0 tipstore0 e)))))) 0 j
                  = TipName tipstore0 0 j)
          \<and> (\<forall>j<4.
                CalTemp (fst (snd (getEEPROM s' ts' (snd (snd (getEEPROM settings0 tipstore0 e)))))) 0 j
                  = CalTemp tipstore0 0 j))"
proof (intro conjI impI)
  assume m: "mk16 (e 0) (e 1) = EEPROM_IDENT"
  note l = load_after_update [OF m, where s' = s' and ts' = ts' and s = s and ts = ts]
  show "fst (getEEPROM s' ts' (updateEEPROM s ts e)) = s" by (rule l(1))
  show "CurrentTip (fst (snd (getEEPROM s' ts' (updateEEPROM s ts e)))) = CurrentTip ts"
    by (rule l(2))
  show "NumberOfTips (fst (snd (getEEPROM s' ts' (updateEEPROM s ts e)))) = NumberOfTips ts"
    by (rule l(3))
  show "\<forall>i<unat (NumberOfTips ts).
          (\<forall>j<TIPNAMELENGTH.
             TipName (fst (snd (getEEPROM s' ts' (updateEEPROM s ts e)))) i j = TipName ts i j)
        \<and> (\<forall>j<4.
             CalTemp (fst (snd (getEEPROM s' ts' (updateEEPROM s ts e)))) i j = CalTemp ts i j)"
    using l(4) l(5) by (simp add: TIPNAMELENGTH_def)
  show "snd (snd (getEEPROM s' ts' (updateEEPROM s ts e))) = updateEEPROM s ts e"
    by (rule l(6))
next
  assume n: "mk16 (e 0) (e 1) \<noteq> EEPROM_IDENT"
  let ?e1 = "e(0 := hi8 EEPROM_IDENT, 1 := lo8 EEPROM_IDENT)"
  have g: "getEEPROM settings0 tipstore0 e = (settings0, tipstore0, updateEEPROM settings0 tipstore0 ?e1)"
    using n by (rule getEEPROM_mismatch)
  have i: "mk16 (?e1 0) (?e1 1) = EEPROM_IDENT" by (simp add: mk16_split)
  note l = load_after_update [OF i, where s' = s' and ts' = ts' and s = settings0 and ts = tipstore0]
  have one: "unat (NumberOfTips tipstore0) = 1" "NumberOfTips tipstore0 = 1" "CurrentTip tipstore0 = 0"
    by (simp_all add: tipstore0_def)
  show "fst (getEEPROM settings0 tipstore0 e) = settings0" by (simp add: g)
  show "fst (snd (getEEPROM settings0 tipstore0 e)) = tipstore0" by (simp add: g)
  show "snd (snd (getEEPROM settings0 tipstore0 e)) = updateEEPROM settings0 tipstore0 ?e1"
    by (simp add: g)
  show "fst (getEEPROM s' ts' (snd (snd (getEEPROM settings0 tipstore0 e)))) = settings0"
    unfolding g snd_conv by (rule l(1))
  show "NumberOfTips (fst (snd (getEEPROM s' ts' (snd (snd (getEEPROM settings0 tipstore0 e)))))) = 1"
    unfolding g snd_conv l(3) by (rule one(2))
  show "CurrentTip (fst (snd (getEEPROM s' ts' (snd (snd (getEEPROM settings0 tipstore0 e)))))) = 0"
    unfolding g snd_conv l(2) by (rule one(3))
  show "\<forall>j<TIPNAMELENGTH.
          TipName (fst (snd (getEEPROM s' ts' (snd (snd (getEEPROM settings0 tipstore0 e)))))) 0 j
            = TipName tipstore0 0 j"
    unfolding g snd_conv
  proof (intro allI impI)
    fix j assume "j < TIPNAMELENGTH"
    then show "TipName (fst (snd (getEEPROM s' ts' (updateEEPROM settings0 tipstore0 ?e1)))) 0 j
            = TipName tipstore0 0 j"
      by (intro l(4)) (simp_all add: one TIPNAMELENGTH_def)
  qed
  show "\<forall>j<4.
          CalTemp (fst (snd (getEEPROM s' ts' (snd (snd (getEEPROM settings0 tipstore0 e)))))) 0 j
            = CalTemp tipstore0 0 j"
    unfolding g snd_conv
  proof (intro allI impI)
    fix j :: nat assume "j < 4"
    then show "CalTemp (fst (snd (getEEPROM s' ts' (updateEEPROM settings0 tipstore0 ?e1)))) 0 j
            = CalTemp tipstore0 0 j"
      by (intro l(5)) (simp_all add: one)
  qed
qed


theorem persistence_roundtrip_witness:
  "fst (getEEPROM settings0 tipstore0
          (updateEEPROM (settings0\<lparr>DefaultTemp := 350, PIDenable := True\<rparr>) tipstore0
             (blankEEPROM(0 := 0xE7, 1 := 0x6C))))
     = settings0\<lparr>DefaultTemp := 350, PIDenable := True\<rparr>
   \<and> CalTemp (fst (snd (getEEPROM settings0 (tipstore0\<lparr>NumberOfTips := 5\<rparr>)
          (updateEEPROM (settings0\<lparr>DefaultTemp := 350, PIDenable := True\<rparr>) tipstore0
             (blankEEPROM(0 := 0xE7, 1 := 0x6C)))))) 0 2 = 390
   \<and> fst (getEEPROM settings0 tipstore0 blankEEPROM) = settings0
   \<and> fst (snd (getEEPROM settings0 tipstore0 blankEEPROM)) = tipstore0
   \<and> NumberOfTips (fst (snd (getEEPROM settings0 (tipstore0\<lparr>NumberOfTips := 5\<rparr>)
          (snd (snd (getEEPROM settings0 tipstore0 blankEEPROM)))))) = 1"
proof -
  let ?S = "settings0\<lparr>DefaultTemp := 350, PIDenable := True\<rparr>"
  let ?E = "blankEEPROM(0 := 0xE7, 1 := 0x6C)"
  have h: "unat (NumberOfTips tipstore0) \<le> TIPMAX"
    by (simp add: tipstore0_def TIPMAX_def)
  have m: "mk16 (?E 0) (?E 1) = EEPROM_IDENT"
    by (simp add: mk16_def EEPROM_IDENT_def)
  have n: "mk16 (blankEEPROM 0) (blankEEPROM 1) \<noteq> EEPROM_IDENT"
    by (simp add: mk16_def EEPROM_IDENT_def blankEEPROM_def)
  note a = persistence_roundtrip [OF h, where e = ?E and s = ?S and s' = settings0
      and ts' = tipstore0, THEN conjunct1, rule_format, OF m]
  note a5 = persistence_roundtrip [OF h, where e = ?E and s = ?S and s' = settings0
      and ts' = "tipstore0\<lparr>NumberOfTips := 5\<rparr>", THEN conjunct1, rule_format, OF m]
  note b = persistence_roundtrip [OF h, where e = blankEEPROM and s' = settings0
      and ts' = "tipstore0\<lparr>NumberOfTips := 5\<rparr>", THEN conjunct2, rule_format, OF n]
  have c: "CalTemp (fst (snd (getEEPROM settings0 (tipstore0\<lparr>NumberOfTips := 5\<rparr>)
          (updateEEPROM ?S tipstore0 ?E)))) 0 2 = CalTemp tipstore0 0 2"
    using a5 by (simp add: tipstore0_def)
  have d: "CalTemp tipstore0 0 2 = 390"
    by (simp add: tipstore0_def TEMP360_def)
  have c': "CalTemp (fst (snd (getEEPROM settings0 (tipstore0\<lparr>NumberOfTips := 5\<rparr>)
          (updateEEPROM ?S tipstore0 ?E)))) 0 2 = 390"
    unfolding c by (rule d)
  from a b c' show ?thesis by blast
qed

end
